theory Spec2Isabelle
  imports
    Complex_Main
    "HOL-Library.Sublist"
    "HOL-Library.Char_ord"
    "HOL-Library.List_Lexorder"
    "HOL-Library.Product_Lexorder"
begin

section \<open>Python values used by the scraper\<close>

text \<open>
  A string is the list of the bytes of its UTF-8 encoding. Digits and letters are those of
  ASCII; the characters beyond ASCII that the program or its library name are matched as
  their byte sequences: the en dash of the time-range pattern, and the white space of
  Unicode, which \<open>str.strip\<close> and the pattern \<open>\s\<close> take. Exceptions are values: every
  function of the source that can raise returns \<open>py_error + 'a\<close>, with \<open>Inl\<close> the
  exception.
\<close>

datatype py_error = ValueError | OverflowError

definition is_digit :: "char \<Rightarrow> bool" where
  "is_digit c = (CHR ''0'' \<le> c \<and> c \<le> CHR ''9'')"

definition digit_val :: "char \<Rightarrow> nat" where
  "digit_val c = of_char c - 48"

definition digit_char :: "nat \<Rightarrow> char" where
  "digit_char n = ''0123456789'' ! (n mod 10)"

text \<open>White space, as \<open>str.isspace\<close> and the pattern \<open>\s\<close> have it. In one byte: tab to
  carriage return, the four separators 28 to 31, and the space.\<close>

definition is_space :: "char \<Rightarrow> bool" where
  "is_space c = (let n = (of_char c :: nat) in (9 \<le> n \<and> n \<le> 13) \<or> (28 \<le> n \<and> n \<le> 32))"

text \<open>In two or three bytes: U+0085, U+00A0 (the no-break space), U+1680, U+2000 to U+200A,
  U+2028, U+2029, U+202F, U+205F and U+3000.\<close>

definition wide_spaces :: "string list" where
  "wide_spaces =
     [[CHR 0xC2, CHR 0x85], [CHR 0xC2, CHR 0xA0], [CHR 0xE1, CHR 0x9A, CHR 0x80],
      [CHR 0xE2, CHR 0x80, CHR 0x80], [CHR 0xE2, CHR 0x80, CHR 0x81],
      [CHR 0xE2, CHR 0x80, CHR 0x82], [CHR 0xE2, CHR 0x80, CHR 0x83],
      [CHR 0xE2, CHR 0x80, CHR 0x84], [CHR 0xE2, CHR 0x80, CHR 0x85],
      [CHR 0xE2, CHR 0x80, CHR 0x86], [CHR 0xE2, CHR 0x80, CHR 0x87],
      [CHR 0xE2, CHR 0x80, CHR 0x88], [CHR 0xE2, CHR 0x80, CHR 0x89],
      [CHR 0xE2, CHR 0x80, CHR 0x8A], [CHR 0xE2, CHR 0x80, CHR 0xA8],
      [CHR 0xE2, CHR 0x80, CHR 0xA9], [CHR 0xE2, CHR 0x80, CHR 0xAF],
      [CHR 0xE2, CHR 0x81, CHR 0x9F], [CHR 0xE3, CHR 0x80, CHR 0x80]]"

text \<open>The number of bytes of the white-space character a string starts with, 0 when it
  starts with none. The wide ones are given by the list, so that the same function reads
  a string from its end, on the reversed string with the reversed list.\<close>

definition space_len :: "string list \<Rightarrow> string \<Rightarrow> nat" where
  "space_len wide s =
     (case s of
        [] \<Rightarrow> 0
      | c # r \<Rightarrow>
          if is_space c then 1
          else if (of_char c :: nat) < 128 then 0
          else (case find (\<lambda>w. prefix w s) wide of Some w \<Rightarrow> length w | None \<Rightarrow> 0))"

function drop_spaces :: "string list \<Rightarrow> string \<Rightarrow> string" where
  "drop_spaces wide [] = []"
| "drop_spaces wide (c # cs) =
     (if space_len wide (c # cs) = 0 then c # cs
      else drop_spaces wide (drop (space_len wide (c # cs)) (c # cs)))"
  by pat_completeness auto
termination
  by (relation "measure (\<lambda>(wide, s). length s)") auto

text \<open>\<open>s.strip()\<close>.\<close>

definition strip :: "string \<Rightarrow> string" where
  "strip s = rev (drop_spaces (map rev wide_spaces) (rev (drop_spaces wide_spaces s)))"

definition lower_char :: "char \<Rightarrow> char" where
  "lower_char c =
     (case map_of (zip ''ABCDEFGHIJKLMNOPQRSTUVWXYZ'' ''abcdefghijklmnopqrstuvwxyz'') c of
        Some l \<Rightarrow> l
      | None \<Rightarrow> c)"

definition lower :: "string \<Rightarrow> string" where
  "lower s = map lower_char s"

text \<open>\<open>sep.join(xs)\<close>.\<close>

fun join :: "string \<Rightarrow> string list \<Rightarrow> string" where
  "join sep [] = []"
| "join sep [x] = x"
| "join sep (x # y # ys) = x @ sep @ join sep (y # ys)"

text \<open>\<open>k in s\<close> on strings is \<^const>\<open>sublist\<close>: \<open>s\<close> is \<open>ps @ k @ ss\<close>.\<close>

definition any_in :: "string list \<Rightarrow> string \<Rightarrow> bool" where
  "any_in keywords s = list_ex (\<lambda>k. sublist k s) keywords"

text \<open>\<open>str(n)\<close> and zero-padded decimal fields of \<open>strftime\<close>.\<close>

fun str_nat :: "nat \<Rightarrow> string" where
  "str_nat n = (if n < 10 then [digit_char n] else str_nat (n div 10) @ [digit_char (n mod 10)])"

declare str_nat.simps [simp del]

definition pad2 :: "nat \<Rightarrow> string" where
  "pad2 n = [digit_char (n div 10 mod 10), digit_char (n mod 10)]"

definition pad4 :: "nat \<Rightarrow> string" where
  "pad4 n = [digit_char (n div 1000 mod 10), digit_char (n div 100 mod 10),
             digit_char (n div 10 mod 10), digit_char (n mod 10)]"


section \<open>The calendar of \<open>datetime\<close>\<close>

text \<open>
  A \<open>datetime\<close> is its proleptic Gregorian ordinal (day 1 is 0001-01-01, the last day
  9999-12-31 is 3652059) and its time of day. The functions below are the library's:
  \<open>_ord2ymd\<close>, \<open>_ymd2ord\<close>, \<open>isocalendar\<close>, \<open>replace\<close>, and adding a \<open>timedelta\<close>, which
  raises \<open>OverflowError\<close> past the last day.
\<close>

record datetime =
  ordinal :: nat
  hour :: nat
  minute :: nat
  second :: nat
  microsecond :: nat

definition MAXORDINAL :: nat where
  "MAXORDINAL = 3652059"

definition valid_datetime :: "datetime \<Rightarrow> bool" where
  "valid_datetime d = (1 \<le> ordinal d \<and> ordinal d \<le> MAXORDINAL \<and> hour d < 24 \<and> minute d < 60
     \<and> second d < 60 \<and> microsecond d < 1000000)"

definition is_leap :: "nat \<Rightarrow> bool" where
  "is_leap y = (y mod 4 = 0 \<and> (y mod 100 \<noteq> 0 \<or> y mod 400 = 0))"

definition DAYS_IN_MONTH :: "nat list" where
  "DAYS_IN_MONTH = [0, 31, 28, 31, 30, 31, 30, 31, 31, 30, 31, 30, 31]"

definition DAYS_BEFORE_MONTH :: "nat list" where
  "DAYS_BEFORE_MONTH = [0, 0, 31, 59, 90, 120, 151, 181, 212, 243, 273, 304, 334]"

definition days_in_month :: "nat \<Rightarrow> nat \<Rightarrow> nat" where
  "days_in_month y m = (if m = 2 \<and> is_leap y then 29 else DAYS_IN_MONTH ! m)"

definition days_before_year :: "nat \<Rightarrow> nat" where
  "days_before_year y = (let p = y - 1 in p * 365 + p div 4 - p div 100 + p div 400)"

definition days_before_month :: "nat \<Rightarrow> nat \<Rightarrow> nat" where
  "days_before_month y m = DAYS_BEFORE_MONTH ! m + (if m > 2 \<and> is_leap y then 1 else 0)"

definition ymd2ord :: "nat \<Rightarrow> nat \<Rightarrow> nat \<Rightarrow> nat" where
  "ymd2ord y m d = days_before_year y + days_before_month y m + d"

definition ord2ymd :: "nat \<Rightarrow> nat \<times> nat \<times> nat" where
  "ord2ymd n0 =
     (let n = n0 - 1;
          n400 = n div 146097; n = n mod 146097;
          n100 = n div 36524; n = n mod 36524;
          n4 = n div 1461; n = n mod 1461;
          n1 = n div 365; n = n mod 365;
          y = n400 * 400 + 1 + n100 * 100 + n4 * 4 + n1
      in if n1 = 4 \<or> n100 = 4 then (y - 1, 12, 31)
         else
           (let leapyear = (n1 = 3 \<and> (n4 \<noteq> 24 \<or> n100 = 3));
                m = (n + 50) div 32;
                preceding = DAYS_BEFORE_MONTH ! m + (if m > 2 \<and> leapyear then 1 else 0)
            in if preceding > n
               then (y, m - 1,
                     Suc (n - (preceding -
                        (DAYS_IN_MONTH ! (m - 1) + (if m - 1 = 2 \<and> leapyear then 1 else 0)))))
               else (y, m, Suc (n - preceding))))"

definition year_of :: "datetime \<Rightarrow> nat" where
  "year_of d = fst (ord2ymd (ordinal d))"

definition month_of :: "datetime \<Rightarrow> nat" where
  "month_of d = fst (snd (ord2ymd (ordinal d)))"

definition day_of :: "datetime \<Rightarrow> nat" where
  "day_of d = snd (snd (ord2ymd (ordinal d)))"

text \<open>\<open>weekday()\<close>: Monday is 0.\<close>

definition weekday :: "datetime \<Rightarrow> nat" where
  "weekday d = (ordinal d + 6) mod 7"

definition isoweek1monday :: "nat \<Rightarrow> int" where
  "isoweek1monday y =
     (let firstday = int (ymd2ord y 1 1);
          firstweekday = (firstday + 6) mod 7;
          week1monday = firstday - firstweekday
      in if firstweekday > 3 then week1monday + 7 else week1monday)"

text \<open>\<open>isocalendar()[1]\<close>, the ISO week number.\<close>

definition iso_week :: "datetime \<Rightarrow> nat" where
  "iso_week d =
     (let y = year_of d;
          today = int (ordinal d);
          week = (today - isoweek1monday y) div 7
      in if week < 0 then nat ((today - isoweek1monday (y - 1)) div 7 + 1)
         else if week \<ge> 52 \<and> today \<ge> isoweek1monday (y + 1) then 1
         else nat (week + 1))"

text \<open>\<open>strftime\<close> with the three formats of the program. The year of \<open>%Y\<close> is written
  without padding, as the C library of Linux does: year 999 is \<open>999\<close>.\<close>

definition strftime_date :: "datetime \<Rightarrow> string" where
  "strftime_date d = str_nat (year_of d) @ ''-'' @ pad2 (month_of d) @ ''-'' @ pad2 (day_of d)"

definition strftime_A :: "datetime \<Rightarrow> string" where
  "strftime_A d =
     [''Monday'', ''Tuesday'', ''Wednesday'', ''Thursday'', ''Friday'', ''Saturday'', ''Sunday'']
       ! weekday d"

definition strftime_HM :: "datetime \<Rightarrow> string" where
  "strftime_HM d = pad2 (hour d) @ '':'' @ pad2 (minute d)"

text \<open>\<open>d.replace(hour=h, minute=m, second=0, microsecond=0)\<close> raises \<open>ValueError\<close> when
  the hour or the minute is out of range.\<close>

definition replace_hm :: "datetime \<Rightarrow> nat \<Rightarrow> nat \<Rightarrow> py_error + datetime" where
  "replace_hm d h m =
     (if h < 24 \<and> m < 60 then Inr (d\<lparr>hour := h, minute := m, second := 0, microsecond := 0\<rparr>)
      else Inl ValueError)"

text \<open>\<open>d + timedelta(minutes=n)\<close> and \<open>d + timedelta(days=1)\<close>.\<close>

definition add_minutes :: "datetime \<Rightarrow> nat \<Rightarrow> py_error + datetime" where
  "add_minutes d n =
     (let t = hour d * 60 + minute d + n;
          o' = ordinal d + t div 1440
      in if o' > MAXORDINAL then Inl OverflowError
         else Inr (d\<lparr>ordinal := o', hour := t mod 1440 div 60, minute := t mod 60\<rparr>))"

definition add_day :: "datetime \<Rightarrow> py_error + datetime" where
  "add_day d = (if ordinal d + 1 > MAXORDINAL then Inl OverflowError
                else Inr (d\<lparr>ordinal := ordinal d + 1\<rparr>))"

text \<open>The order of naive datetimes, \<open>a <= b\<close>.\<close>

definition dt_key :: "datetime \<Rightarrow> nat \<times> nat \<times> nat \<times> nat \<times> nat" where
  "dt_key d = (ordinal d, hour d, minute d, second d, microsecond d)"

definition dt_le :: "datetime \<Rightarrow> datetime \<Rightarrow> bool" where
  "dt_le a b = (dt_key a \<le> dt_key b)"

text \<open>\<open>(b - a).seconds\<close>: the difference is normalised to days and a second count in
  \<open>0 ..< 86400\<close>, so a negative span of the same day wraps around.\<close>

definition secs_of_day :: "datetime \<Rightarrow> int" where
  "secs_of_day d = int (hour d * 3600 + minute d * 60 + second d)"

definition usecs_of :: "datetime \<Rightarrow> int" where
  "usecs_of d = (int (ordinal d) * 86400 + secs_of_day d) * 1000000 + int (microsecond d)"

definition diff_seconds :: "datetime \<Rightarrow> datetime \<Rightarrow> nat" where
  "diff_seconds b a = nat (((usecs_of b - usecs_of a) div 1000000) mod 86400)"

text \<open>\<open>round(seconds / 3600, 2)\<close> for a whole number of seconds, as an exact rational:
  the nearest multiple of \<open>1 / 100\<close>, which is \<open>\<lfloor>seconds / 36 + 1 / 2\<rfloor>\<close> hundredths. The
  program only rounds spans of whole minutes, where \<open>seconds / 36\<close> is a multiple of
  \<open>1 / 3\<close> and never half-way between two integers, so rounding half up and Python's
  rounding half to even agree.\<close>

definition round2_hours :: "nat \<Rightarrow> rat" where
  "round2_hours seconds = of_nat ((seconds + 18) div 36) / 100"

definition duration_of :: "datetime \<Rightarrow> datetime \<Rightarrow> rat" where
  "duration_of end_dt start_dt = round2_hours (diff_seconds end_dt start_dt)"


section \<open>Time Normalizer: \<open>parse_time_string\<close>\<close>

text \<open>
  \<open>datetime.strptime\<close> turns a format into a regular expression, matches it against the
  start of the text with backtracking, and raises \<open>ValueError\<close> when nothing matches, when
  text is left after the match, or when the fields are no date. A matcher is the list of
  its matches, in the order backtracking tries them: the match taken is the first.
  The directives are those of the C locale, matched ignoring case:
  \<open>%I\<close> and \<open>%m\<close> are \<open>1[0-2]|0[1-9]|[1-9]\<close>, \<open>%H\<close> is \<open>2[0-3]|[0-1]\d|\d\<close>,
  \<open>%M\<close> is \<open>[0-5]\d|\d\<close>, \<open>%S\<close> is \<open>6[0-1]|[0-5]\d|\d\<close>,
  \<open>%d\<close> is \<open>3[0-1]|[1-2]\d|0[1-9]|[1-9]| [1-9]\<close>, \<open>%Y\<close> is \<open>\d\d\d\d\<close>, \<open>%p\<close> is \<open>am|pm\<close>,
  and a blank of the format is \<open>\s+\<close>.
\<close>

type_synonym 'a matcher = "string \<Rightarrow> ('a \<times> string) list"

definition in_range :: "char \<Rightarrow> char \<Rightarrow> char \<Rightarrow> bool" where
  "in_range lo hi c = (lo \<le> c \<and> c \<le> hi)"

definition two :: "(char \<Rightarrow> bool) \<Rightarrow> (char \<Rightarrow> bool) \<Rightarrow> nat matcher" where
  "two P Q s =
     (case s of
        a # b # r \<Rightarrow> if P a \<and> Q b then [(10 * digit_val a + digit_val b, r)] else []
      | _ \<Rightarrow> [])"

definition one :: "(char \<Rightarrow> bool) \<Rightarrow> nat matcher" where
  "one P s = (case s of a # r \<Rightarrow> if P a then [(digit_val a, r)] else [] | _ \<Rightarrow> [])"

definition dir_I :: "nat matcher" where
  "dir_I s = two (\<lambda>c. c = CHR ''1'') (in_range CHR ''0'' CHR ''2'') s
           @ two (\<lambda>c. c = CHR ''0'') (in_range CHR ''1'' CHR ''9'') s
           @ one (in_range CHR ''1'' CHR ''9'') s"

definition dir_H :: "nat matcher" where
  "dir_H s = two (\<lambda>c. c = CHR ''2'') (in_range CHR ''0'' CHR ''3'') s
           @ two (in_range CHR ''0'' CHR ''1'') is_digit s
           @ one is_digit s"

definition dir_M :: "nat matcher" where
  "dir_M s = two (in_range CHR ''0'' CHR ''5'') is_digit s @ one is_digit s"

definition dir_S :: "nat matcher" where
  "dir_S s = two (\<lambda>c. c = CHR ''6'') (in_range CHR ''0'' CHR ''1'') s
           @ two (in_range CHR ''0'' CHR ''5'') is_digit s
           @ one is_digit s"

definition dir_d :: "nat matcher" where
  "dir_d s = two (\<lambda>c. c = CHR ''3'') (in_range CHR ''0'' CHR ''1'') s
           @ two (in_range CHR ''1'' CHR ''2'') is_digit s
           @ two (\<lambda>c. c = CHR ''0'') (in_range CHR ''1'' CHR ''9'') s
           @ one (in_range CHR ''1'' CHR ''9'') s
           @ (case s of a # r \<Rightarrow> if a = CHR '' '' then one (in_range CHR ''1'' CHR ''9'') r else []
              | _ \<Rightarrow> [])"

definition dir_Y :: "nat matcher" where
  "dir_Y s =
     (case s of
        a # b # c # d # r \<Rightarrow>
          if is_digit a \<and> is_digit b \<and> is_digit c \<and> is_digit d
          then [(1000 * digit_val a + 100 * digit_val b + 10 * digit_val c + digit_val d, r)]
          else []
      | _ \<Rightarrow> [])"

text \<open>\<open>%p\<close>: the value says whether the text is \<open>pm\<close>.\<close>

definition dir_p :: "bool matcher" where
  "dir_p s =
     (case s of
        a # b # r \<Rightarrow>
          if lower [a, b] = ''am'' then [(False, r)]
          else if lower [a, b] = ''pm'' then [(True, r)]
          else []
      | _ \<Rightarrow> [])"

text \<open>A literal character of the format, and \<open>\s+\<close> (the longest run first).\<close>

definition lit :: "char \<Rightarrow> string \<Rightarrow> string list" where
  "lit c s = (case s of a # r \<Rightarrow> if lower_char a = lower_char c then [r] else [] | _ \<Rightarrow> [])"

function ws1 :: "string \<Rightarrow> string list" where
  "ws1 [] = []"
| "ws1 (c # cs) =
     (if space_len wide_spaces (c # cs) = 0 then []
      else ws1 (drop (space_len wide_spaces (c # cs)) (c # cs))
           @ [drop (space_len wide_spaces (c # cs)) (c # cs)])"
  by pat_completeness auto
termination
  by (relation "measure length") auto

text \<open>The first match must end the text.\<close>

definition whole :: "('a \<times> string) list \<Rightarrow> py_error + 'a" where
  "whole ms = (case ms of [] \<Rightarrow> Inl ValueError
               | (v, r) # _ \<Rightarrow> if r = [] then Inr v else Inl ValueError)"

text \<open>The hour of a 12-hour clock: \<open>12 am\<close> is 0, and \<open>pm\<close> adds 12 except to 12.\<close>

definition hour12 :: "nat \<Rightarrow> bool \<Rightarrow> nat" where
  "hour12 h pm = (if pm then (if h \<noteq> 12 then h + 12 else h) else (if h = 12 then 0 else h))"

text \<open>The six formats, each giving the hour and the minute of the parsed time.\<close>

definition fmt_I_M_p :: "string \<Rightarrow> py_error + nat \<times> nat" where
  "fmt_I_M_p s = whole
     [((hour12 h pm, m), r). (h, s1) \<leftarrow> dir_I s, s2 \<leftarrow> lit CHR '':'' s1, (m, s3) \<leftarrow> dir_M s2,
        s4 \<leftarrow> ws1 s3, (pm, r) \<leftarrow> dir_p s4]"

definition fmt_I_Mp :: "string \<Rightarrow> py_error + nat \<times> nat" where
  "fmt_I_Mp s = whole
     [((hour12 h pm, m), r). (h, s1) \<leftarrow> dir_I s, s2 \<leftarrow> lit CHR '':'' s1, (m, s3) \<leftarrow> dir_M s2,
        (pm, r) \<leftarrow> dir_p s3]"

definition fmt_H_M :: "string \<Rightarrow> py_error + nat \<times> nat" where
  "fmt_H_M s = whole
     [((h, m), r). (h, s1) \<leftarrow> dir_H s, s2 \<leftarrow> lit CHR '':'' s1, (m, r) \<leftarrow> dir_M s2]"

definition fmt_I_p :: "string \<Rightarrow> py_error + nat \<times> nat" where
  "fmt_I_p s = whole
     [((hour12 h pm, 0), r). (h, s1) \<leftarrow> dir_I s, s2 \<leftarrow> ws1 s1, (pm, r) \<leftarrow> dir_p s2]"

text \<open>The two formats with a date build \<open>datetime(y, mo, d, h, m, sec)\<close>, which raises
  \<open>ValueError\<close> on year 0, on a day the month does not have and on second 60 or 61.\<close>

definition fmt_iso :: "char \<Rightarrow> string \<Rightarrow> py_error + nat \<times> nat" where
  "fmt_iso sep s =
     (case whole
        [((y, mo, d, h, m, sec), r). (y, s1) \<leftarrow> dir_Y s, s2 \<leftarrow> lit CHR ''-'' s1,
           (mo, s3) \<leftarrow> dir_I s2, s4 \<leftarrow> lit CHR ''-'' s3, (d, s5) \<leftarrow> dir_d s4,
           s6 \<leftarrow> (if sep = CHR '' '' then ws1 s5 else lit sep s5),
           (h, s7) \<leftarrow> dir_H s6, s8 \<leftarrow> lit CHR '':'' s7, (m, s9) \<leftarrow> dir_M s8,
           s10 \<leftarrow> lit CHR '':'' s9, (sec, r) \<leftarrow> dir_S s10]
      of Inl e \<Rightarrow> Inl e
       | Inr (y, mo, d, h, m, sec) \<Rightarrow>
           if 1 \<le> y \<and> d \<le> days_in_month y mo \<and> sec \<le> 59 then Inr (h, m) else Inl ValueError)"

definition formats :: "(string \<Rightarrow> py_error + nat \<times> nat) list" where
  "formats = [fmt_I_M_p, fmt_I_Mp, fmt_H_M, fmt_I_p, fmt_iso CHR ''T'', fmt_iso CHR '' '']"

text \<open>The loop over the formats: a \<open>ValueError\<close> of \<open>strptime\<close> or of \<open>replace\<close> goes on to
  the next format, and the end of the list raises \<open>ValueError\<close>.\<close>

fun try_formats ::
  "(string \<Rightarrow> py_error + nat \<times> nat) list \<Rightarrow> string \<Rightarrow> datetime \<Rightarrow> py_error + datetime" where
  "try_formats [] s base_date = Inl ValueError"
| "try_formats (f # fs) s base_date =
     (case f s of
        Inl e \<Rightarrow> try_formats fs s base_date
      | Inr (h, m) \<Rightarrow>
          (case replace_hm base_date h m of
             Inr t \<Rightarrow> Inr t
           | Inl e \<Rightarrow> if e = ValueError then try_formats fs s base_date else Inl e))"

definition parse_time_string :: "string \<Rightarrow> datetime \<Rightarrow> py_error + datetime" where
  "parse_time_string time_str base_date = try_formats formats (strip time_str) base_date"


section \<open>The parsed page\<close>

text \<open>
  The input of the Extraction Engine is the page as \<open>BeautifulSoup\<close> hands it over: a tree
  of elements (tag name in lower case, the tokens of the \<open>class\<close> attribute, the other
  attributes, the children) and text. A script element is given by what the engine reads
  off it: for each match of the pattern \<open>(\[{.*?}\])\<close> in its text, in order, the outcome
  of \<open>json.loads\<close>, which is malformed or a list of items. An object is its key/value pairs
  (looked up from the front); of a value the program uses only its truth value and its
  \<open>str()\<close>, which are given for the values that are neither string, null, boolean nor
  integer.
\<close>

datatype jvalue = JStr string | JNull | JBool bool | JInt int | JOther bool string

datatype json_item = JDict "(string \<times> jvalue) list" | JNonDict

datatype json_block = Malformed | Parsed "json_item list"

datatype node =
    Text string
  | Script "json_block list"
  | Elem string "string list" "(string \<times> string) list" "node list"

fun py_truthy :: "jvalue \<Rightarrow> bool" where
  "py_truthy (JStr s) = (s \<noteq> [])"
| "py_truthy JNull = False"
| "py_truthy (JBool b) = b"
| "py_truthy (JInt i) = (i \<noteq> 0)"
| "py_truthy (JOther t r) = t"

fun py_str :: "jvalue \<Rightarrow> string" where
  "py_str (JStr s) = s"
| "py_str JNull = ''None''"
| "py_str (JBool b) = (if b then ''True'' else ''False'')"
| "py_str (JInt i) = (if i < 0 then ''-'' @ str_nat (nat (- i)) else str_nat (nat i))"
| "py_str (JOther t r) = r"

text \<open>The descendants of a node in document order, as \<open>find_all\<close> walks them.\<close>

fun descendants :: "node \<Rightarrow> node list" where
  "descendants (Elem t cs as ch) = concat (map (\<lambda>n. n # descendants n) ch)"
| "descendants (Text s) = []"
| "descendants (Script bs) = []"

fun tag_of :: "node \<Rightarrow> string option" where
  "tag_of (Elem t cs as ch) = Some t"
| "tag_of (Text s) = None"
| "tag_of (Script bs) = Some ''script''"

fun classes_of :: "node \<Rightarrow> string list" where
  "classes_of (Elem t cs as ch) = cs"
| "classes_of n = []"

fun attrs_of :: "node \<Rightarrow> (string \<times> string) list" where
  "attrs_of (Elem t cs as ch) = as"
| "attrs_of n = []"

definition find_all :: "string list \<Rightarrow> node \<Rightarrow> node list" where
  "find_all tags n = filter (\<lambda>x. case tag_of x of Some t \<Rightarrow> t \<in> set tags | None \<Rightarrow> False)
                       (descendants n)"

text \<open>The strings of \<open>get_text\<close>: the text below the node, the text of scripts left out.\<close>

fun text_of :: "node \<Rightarrow> string list" where
  "text_of (Text s) = [s]"
| "text_of n = []"

definition strings :: "node \<Rightarrow> string list" where
  "strings n = concat (map text_of (n # descendants n))"

text \<open>\<open>get_text(separator=sep, strip=True)\<close>: every string stripped, the empty ones
  dropped.\<close>

definition get_text_strip :: "string \<Rightarrow> node \<Rightarrow> string" where
  "get_text_strip sep n = join sep (filter (\<lambda>s. s \<noteq> []) (map strip (strings n)))"


section \<open>The reservation record\<close>

record reservation =
  date :: string
  day_of_week :: string
  start_time :: string
  end_time :: string
  duration_hours :: rat
  room_name :: string
  room_id :: string
  hour_of_day :: nat
  month :: nat
  week_of_year :: nat
  source :: string

text \<open>A loop that extends \<open>records\<close> with what each step finds; an exception of a step
  leaves the loop and the function.\<close>

fun for_extend :: "('a \<Rightarrow> py_error + 'b list) \<Rightarrow> 'a list \<Rightarrow> py_error + 'b list" where
  "for_extend f [] = Inr []"
| "for_extend f (x # xs) =
     (case f x of
        Inl e \<Rightarrow> Inl e
      | Inr a \<Rightarrow> (case for_extend f xs of Inl e \<Rightarrow> Inl e | Inr b \<Rightarrow> Inr (a @ b)))"


section \<open>Strategy 1: the grid table\<close>

text \<open>\<open>re.match(r"(\d{1,2}):(\d{2})\s*(AM|PM)?", time_text, re.IGNORECASE)\<close>: the groups of
  the first match, the third being absent, \<open>am\<close> or \<open>pm\<close>.\<close>

definition ws0 :: "string \<Rightarrow> string list" where
  "ws0 s = ws1 s @ [s]"

definition opt_ampm :: "bool option matcher" where
  "opt_ampm s = map (\<lambda>(pm, r). (Some pm, r)) (dir_p s) @ [(None, s)]"

definition digits12 :: "nat matcher" where
  "digits12 s = two is_digit is_digit s @ one is_digit s"

definition time_match :: "string \<Rightarrow> (nat \<times> nat \<times> bool option) option" where
  "time_match s =
     (case [(h, m, mer). (h, s1) \<leftarrow> digits12 s, s2 \<leftarrow> lit CHR '':'' s1,
              (m, s3) \<leftarrow> two is_digit is_digit s2, s4 \<leftarrow> ws0 s3, (mer, r) \<leftarrow> opt_ampm s4]
      of [] \<Rightarrow> None | x # _ \<Rightarrow> Some x)"

definition room_keywords :: "string list" where
  "room_keywords = [''room'', ''104'', ''211'', ''230'', ''311'', ''319'', ''grover'', ''lakeview'']"

definition class_keywords :: "string list" where
  "class_keywords = [''reserved'', ''booked'', ''unavailable'', ''occupied'', ''event'']"

definition text_keywords :: "string list" where
  "text_keywords = [''reserved'', ''booked'', ''unavailable'']"

definition is_reserved :: "node \<Rightarrow> bool" where
  "is_reserved cell =
     (any_in class_keywords (lower (join '' '' (classes_of cell)))
      \<or> any_in text_keywords (lower (get_text_strip [] cell)))"

definition grid_cell ::
  "datetime \<Rightarrow> datetime \<Rightarrow> nat \<Rightarrow> string list \<Rightarrow> nat \<times> node \<Rightarrow> py_error + reservation list" where
  "grid_cell day slot_time hr headers ic =
     (let col_idx = fst ic; cell = snd ic;
          col_name = (if col_idx < length headers then headers ! col_idx
                      else ''Room_'' @ str_nat col_idx)
      in if is_reserved cell
         then (case add_minutes slot_time 30 of
                 Inl e \<Rightarrow> Inl e
               | Inr slot_end \<Rightarrow>
                   Inr [\<lparr>date = strftime_date day, day_of_week = strftime_A day,
                         start_time = strftime_HM slot_time, end_time = strftime_HM slot_end,
                         duration_hours = 1 / 2, room_name = col_name, room_id = col_name,
                         hour_of_day = hr, month = month_of day, week_of_year = iso_week day,
                         source = ''grid_table''\<rparr>])
         else Inr [])"

definition grid_row :: "datetime \<Rightarrow> string list \<Rightarrow> node \<Rightarrow> py_error + reservation list" where
  "grid_row day headers row =
     (case find_all [''td'', ''th''] row of
        [] \<Rightarrow> Inr []
      | c # cells \<Rightarrow>
          (case time_match (get_text_strip [] c) of
             None \<Rightarrow> Inr []
           | Some (h, m, mer) \<Rightarrow>
               (let hr = (if mer = Some True \<and> h \<noteq> 12 then h + 12
                          else if mer = Some False \<and> h = 12 then 0 else h)
                in case replace_hm day hr m of
                     Inl e \<Rightarrow> Inl e
                   | Inr slot_time \<Rightarrow>
                       for_extend (grid_cell day slot_time hr headers) (enumerate 1 cells))))"

definition grid_table :: "datetime \<Rightarrow> node \<Rightarrow> py_error + reservation list" where
  "grid_table day table =
     (let rows = find_all [''tr''] table
      in if length rows < 3 then Inr []
         else
           (let headers = map (get_text_strip []) (find_all [''th'', ''td''] (hd rows))
            in if \<not> any_in room_keywords (lower (join '' '' headers)) then Inr []
               else for_extend (grid_row day headers) (tl rows)))"

definition strategy_grid :: "node \<Rightarrow> datetime \<Rightarrow> py_error + reservation list" where
  "strategy_grid soup day = for_extend (grid_table day) (find_all [''table''] soup)"


section \<open>Strategy 2: embedded JSON\<close>

text \<open>\<open>next((item[k] for k in keys if k in item), None)\<close>.\<close>

fun first_key :: "string list \<Rightarrow> (string \<times> jvalue) list \<Rightarrow> jvalue option" where
  "first_key [] item = None"
| "first_key (k # ks) item =
     (case map_of item k of Some v \<Rightarrow> Some v | None \<Rightarrow> first_key ks item)"

definition time_keys :: "string list" where
  "time_keys = [''startTime'', ''start_time'', ''StartTime'', ''start'', ''Begin'', ''beginTime'']"

definition end_keys :: "string list" where
  "end_keys = [''endTime'', ''end_time'', ''EndTime'', ''end'', ''End'', ''endTime'']"

definition room_keys :: "string list" where
  "room_keys = [''roomName'', ''room_name'', ''RoomName'', ''room'', ''Room'', ''location'']"

text \<open>The body of a \<open>try\<close> whose \<open>except (ValueError, TypeError)\<close> returns \<open>None\<close>: a
  \<open>ValueError\<close> becomes no record, any other exception goes on to the caller.\<close>

definition except_ValueError :: "py_error + reservation \<Rightarrow> py_error + reservation option" where
  "except_ValueError x =
     (case x of Inr r \<Rightarrow> Inr (Some r)
      | Inl e \<Rightarrow> if e = ValueError then Inr None else Inl e)"

definition json_room_id :: "(string \<times> jvalue) list \<Rightarrow> string" where
  "json_room_id item =
     (case map_of item ''roomId'' of
        Some v \<Rightarrow> py_str v
      | None \<Rightarrow> (case map_of item ''room_id'' of Some v \<Rightarrow> py_str v | None \<Rightarrow> []))"

definition extract_from_json_item ::
  "(string \<times> jvalue) list \<Rightarrow> datetime \<Rightarrow> py_error + reservation option" where
  "extract_from_json_item item day =
     (let start_val = first_key time_keys item;
          end_val = first_key end_keys item;
          room_val = (case first_key room_keys item of Some v \<Rightarrow> py_str v | None \<Rightarrow> ''Unknown'')
      in case start_val of
           None \<Rightarrow> Inr None
         | Some sv \<Rightarrow>
             if \<not> py_truthy sv then Inr None
             else except_ValueError
               (case parse_time_string (py_str sv) day of
                  Inl e \<Rightarrow> Inl e
                | Inr start_dt \<Rightarrow>
                    (case (case end_val of
                             None \<Rightarrow> add_minutes start_dt 60
                           | Some ev \<Rightarrow> if py_truthy ev then parse_time_string (py_str ev) day
                                        else add_minutes start_dt 60)
                     of Inl e \<Rightarrow> Inl e
                      | Inr end_dt \<Rightarrow>
                          Inr \<lparr>date = strftime_date day, day_of_week = strftime_A day,
                               start_time = strftime_HM start_dt, end_time = strftime_HM end_dt,
                               duration_hours = duration_of end_dt start_dt, room_name = room_val,
                               room_id = json_room_id item, hour_of_day = hour start_dt,
                               month = month_of day, week_of_year = iso_week day,
                               source = ''json_embed''\<rparr>)))"

definition json_item_records :: "datetime \<Rightarrow> json_item \<Rightarrow> py_error + reservation list" where
  "json_item_records day it =
     (case it of
        JNonDict \<Rightarrow> Inr []
      | JDict item \<Rightarrow>
          (case extract_from_json_item item day of
             Inl e \<Rightarrow> Inl e
           | Inr None \<Rightarrow> Inr []
           | Inr (Some r) \<Rightarrow> Inr [r]))"

text \<open>One match of the pattern: a malformed block raises inside the \<open>try\<close> and is skipped.\<close>

definition json_block_records :: "datetime \<Rightarrow> json_block \<Rightarrow> py_error + reservation list" where
  "json_block_records day b =
     (case b of Malformed \<Rightarrow> Inr [] | Parsed data \<Rightarrow> for_extend (json_item_records day) data)"

fun blocks_of :: "node \<Rightarrow> json_block list" where
  "blocks_of (Script bs) = bs"
| "blocks_of n = []"

definition strategy_json :: "node \<Rightarrow> datetime \<Rightarrow> py_error + reservation list" where
  "strategy_json soup day =
     for_extend (\<lambda>script. for_extend (json_block_records day) (blocks_of script))
       (find_all [''script''] soup)"


section \<open>Strategy 3: elements with a time range in their text\<close>

text \<open>The selectors of \<open>find_all(attrs=...)\<close>: a regular expression of alternatives,
  searched ignoring case, in a token of the \<open>class\<close> attribute or in the tokens joined by
  blanks, and in the \<open>data-type\<close> attribute.\<close>

definition class_selector :: "node \<Rightarrow> bool" where
  "class_selector n =
     (let kws = [''event'', ''reservation'', ''booking'']; cs = classes_of n
      in list_ex (\<lambda>t. any_in kws (lower t)) cs \<or> any_in kws (lower (join '' '' cs)))"

definition data_type_selector :: "node \<Rightarrow> bool" where
  "data_type_selector n =
     (case map_of (attrs_of n) ''data-type'' of
        Some v \<Rightarrow> any_in [''reservation'', ''event''] (lower v)
      | None \<Rightarrow> False)"

text \<open>One side of the range, \<open>\d{1,2}:\d{2}\s*(?:AM|PM)?\<close>: what is left after each match.\<close>

definition time_token :: "string \<Rightarrow> string list" where
  "time_token s =
     [r. (h, s1) \<leftarrow> digits12 s, s2 \<leftarrow> lit CHR '':'' s1, (m, s3) \<leftarrow> two is_digit is_digit s2,
         s4 \<leftarrow> ws0 s3, (mer, r) \<leftarrow> opt_ampm s4]"

text \<open>The separator \<open>[-\<dots>to]+\<close>, ignoring case: hyphen, en dash (bytes E2 80 93), \<open>t\<close> or
  \<open>o\<close>, once or more, the longest run first.\<close>

definition en_dash :: string where
  "en_dash = [CHR 0xE2, CHR 0x80, CHR 0x93]"

fun sep_plus :: "string \<Rightarrow> string list" where
  "sep_plus [] = []"
| "sep_plus (a # r) =
     (if lower_char a \<in> set ''-to'' then sep_plus r @ [r]
      else (case r of
              b # c # r' \<Rightarrow> if [a, b, c] = en_dash then sep_plus r' @ [r'] else []
            | _ \<Rightarrow> []))"

text \<open>\<open>re.search\<close> of the time range: the first position with a match, and the texts of
  the two groups of the first match there.\<close>

definition range_at :: "string \<Rightarrow> (string \<times> string) list" where
  "range_at s =
     [(take (length s - length r1) s, take (length r4 - length r5) r4).
        r1 \<leftarrow> time_token s, r2 \<leftarrow> ws0 r1, r3 \<leftarrow> sep_plus r2, r4 \<leftarrow> ws0 r3, r5 \<leftarrow> time_token r4]"

fun time_pattern :: "string \<Rightarrow> (string \<times> string) option" where
  "time_pattern [] = (case range_at [] of [] \<Rightarrow> None | x # _ \<Rightarrow> Some x)"
| "time_pattern (c # cs) =
     (case range_at (c # cs) of [] \<Rightarrow> time_pattern cs | x # _ \<Rightarrow> Some x)"

text \<open>\<open>re.search(r"Room\s*(\d{3})|(\b(?:Grover|Lakeview|Van Houten|TWC)\b)", text,
  re.IGNORECASE)\<close>: the text of the first match. A word character is a letter, a digit or
  the underscore; \<open>prev\<close> is the character before the position.\<close>

definition is_word :: "char \<Rightarrow> bool" where
  "is_word c = (in_range CHR ''a'' CHR ''z'' (lower_char c) \<or> is_digit c \<or> c = CHR ''_'')"

definition lit_str :: "string \<Rightarrow> string \<Rightarrow> string list" where
  "lit_str w s = (if lower (take (length w) s) = lower w \<and> length w \<le> length s
                  then [drop (length w) s] else [])"

definition room_at :: "char option \<Rightarrow> string \<Rightarrow> string list" where
  "room_at prev s =
     [r. s1 \<leftarrow> lit_str ''Room'' s, s2 \<leftarrow> ws0 s1,
         r \<leftarrow> (case s2 of a # b # c # r \<Rightarrow> if is_digit a \<and> is_digit b \<and> is_digit c then [r] else []
                | _ \<Rightarrow> [])]
     @ (if (case prev of None \<Rightarrow> True | Some p \<Rightarrow> \<not> is_word p)
        then [r. w \<leftarrow> [''Grover'', ''Lakeview'', ''Van Houten'', ''TWC''], r \<leftarrow> lit_str w s,
                 (case r of [] \<Rightarrow> True | a # _ \<Rightarrow> \<not> is_word a)]
        else [])"

fun room_search :: "char option \<Rightarrow> string \<Rightarrow> string option" where
  "room_search prev [] = (case room_at prev [] of [] \<Rightarrow> None | r # _ \<Rightarrow> Some [])"
| "room_search prev (c # cs) =
     (case room_at prev (c # cs) of
        [] \<Rightarrow> room_search (Some c) cs
      | r # _ \<Rightarrow> Some (take (length (c # cs) - length r) (c # cs)))"

definition extract_from_element :: "node \<Rightarrow> datetime \<Rightarrow> py_error + reservation option" where
  "extract_from_element element day =
     (let text = get_text_strip '' '' element
      in case time_pattern text of
           None \<Rightarrow> Inr None
         | Some (g1, g2) \<Rightarrow>
             except_ValueError
               (case parse_time_string g1 day of
                  Inl e \<Rightarrow> Inl e
                | Inr start_dt \<Rightarrow>
                    (case parse_time_string g2 day of
                       Inl e \<Rightarrow> Inl e
                     | Inr end_dt \<Rightarrow>
                         Inr \<lparr>date = strftime_date day, day_of_week = strftime_A day,
                              start_time = strftime_HM start_dt, end_time = strftime_HM end_dt,
                              duration_hours = duration_of end_dt start_dt,
                              room_name =
                                (case room_search None text of
                                   Some m \<Rightarrow> m
                                 | None \<Rightarrow>
                                     (case map_of (attrs_of element) ''data-room'' of
                                        Some v \<Rightarrow> v | None \<Rightarrow> ''Unknown'')),
                              room_id = [], hour_of_day = hour start_dt,
                              month = month_of day, week_of_year = iso_week day,
                              source = ''html_element''\<rparr>)))"

definition element_records :: "datetime \<Rightarrow> node \<Rightarrow> py_error + reservation list" where
  "element_records day element =
     (case extract_from_element element day of
        Inl e \<Rightarrow> Inl e
      | Inr None \<Rightarrow> Inr []
      | Inr (Some r) \<Rightarrow> Inr [r])"

definition strategy_elements :: "node \<Rightarrow> datetime \<Rightarrow> py_error + reservation list" where
  "strategy_elements soup day =
     for_extend
       (\<lambda>selector. for_extend (element_records day) (filter selector (descendants soup)))
       [class_selector, data_type_selector]"


section \<open>Extraction Engine: \<open>parse_time_slots\<close>\<close>

definition parse_time_slots :: "node \<Rightarrow> datetime \<Rightarrow> py_error + reservation list" where
  "parse_time_slots soup day =
     (case strategy_grid soup day of
        Inl e \<Rightarrow> Inl e
      | Inr a \<Rightarrow>
          (case strategy_json soup day of
             Inl e \<Rightarrow> Inl e
           | Inr b \<Rightarrow>
               (case strategy_elements soup day of
                  Inl e \<Rightarrow> Inl e
                | Inr c \<Rightarrow> Inr (a @ b @ c))))"


section \<open>Collection Orchestrator: \<open>collect_date_range\<close>\<close>

text \<open>
  The page fetch is a function of the day, giving the parsed page or nothing (\<open>None\<close> or
  an empty text, which the loop treats alike). The effects of the loop are kept as a trace:
  one \<open>Fetch\<close> per day tried and one \<open>Sleep\<close> per call of \<open>time.sleep(delay)\<close>, which raises
  \<open>ValueError\<close> on a negative delay. An exception ends the loop with the trace so far.
\<close>

datatype event = Fetch datetime | Sleep rat

function collect_loop ::
  "(datetime \<Rightarrow> node option) \<Rightarrow> rat \<Rightarrow> datetime \<Rightarrow> datetime
     \<Rightarrow> event list \<times> (py_error + reservation list)" where
  "collect_loop fetch delay current end_date =
     (if dt_le current end_date then
        (case (case fetch current of
                 None \<Rightarrow> Inr []
               | Some html \<Rightarrow> parse_time_slots html current) of
           Inl e \<Rightarrow> ([Fetch current], Inl e)
         | Inr records \<Rightarrow>
             (case add_day current of
                Inl e \<Rightarrow> ([Fetch current], Inl e)
              | Inr next_day \<Rightarrow>
                  if delay < 0 then ([Fetch current], Inl ValueError)
                  else
                    (case collect_loop fetch delay next_day end_date of
                       (trace, Inl e) \<Rightarrow> (Fetch current # Sleep delay # trace, Inl e)
                     | (trace, Inr rest) \<Rightarrow>
                         (Fetch current # Sleep delay # trace, Inr (records @ rest)))))
      else ([], Inr []))"
  by pat_completeness auto
termination
proof (relation "measure (\<lambda>(fetch, delay, current, end_date). Suc (ordinal end_date) - ordinal current)")
  show "wf (measure (\<lambda>(fetch, delay, current, end_date). Suc (ordinal end_date) - ordinal current))"
    by simp
next
  fix fetch :: "datetime \<Rightarrow> node option" and delay :: rat
    and current end_date next_day :: datetime and x records
  assume le: "dt_le current end_date" and nd: "add_day current = Inr next_day"
  from le have "ordinal current \<le> ordinal end_date"
    by (auto simp: dt_le_def dt_key_def less_eq_prod_def)
  moreover from nd have "ordinal next_day = Suc (ordinal current)"
    by (auto simp: add_day_def split: if_splits)
  ultimately
  show "((fetch, delay, next_day, end_date), (fetch, delay, current, end_date))
          \<in> measure (\<lambda>(fetch, delay, current, end_date). Suc (ordinal end_date) - ordinal current)"
    by simp
qed

declare collect_loop.simps [simp del]

text \<open>\<open>DataFrame.drop_duplicates()\<close>: of the rows equal in every column the first is kept,
  in the order of the frame.\<close>

fun drop_dups :: "'a list \<Rightarrow> 'a list \<Rightarrow> 'a list" where
  "drop_dups seen [] = []"
| "drop_dups seen (x # xs) = (if x \<in> set seen then drop_dups seen xs else x # drop_dups (x # seen) xs)"

definition drop_duplicates :: "'a list \<Rightarrow> 'a list" where
  "drop_duplicates xs = drop_dups [] xs"

text \<open>\<open>sort_values(["date", "room_name", "start_time"])\<close>: a stable sort on the three
  strings, compared character by character.\<close>

definition sort_values :: "reservation list \<Rightarrow> reservation list" where
  "sort_values rs = sort_key (\<lambda>r. (date r, room_name r, start_time r)) rs"

definition collect_date_range ::
  "(datetime \<Rightarrow> node option) \<Rightarrow> datetime \<Rightarrow> datetime \<Rightarrow> rat
     \<Rightarrow> event list \<times> (py_error + reservation list)" where
  "collect_date_range fetch start_date end_date delay =
     (case collect_loop fetch delay start_date end_date of
        (trace, Inl e) \<Rightarrow> (trace, Inl e)
      | (trace, Inr all_records) \<Rightarrow>
          if all_records = [] then (trace, Inr [])
          else (trace, Inr (sort_values (drop_duplicates all_records))))"


section \<open>Example inputs\<close>

definition day1 :: datetime where
  "day1 = \<lparr>ordinal = 738946, hour = 0, minute = 0, second = 0, microsecond = 0\<rparr>"

definition day2 :: datetime where
  "day2 = \<lparr>ordinal = 738947, hour = 0, minute = 0, second = 0, microsecond = 0\<rparr>"


text \<open>The table of the end-to-end scenario, with its header row and its one data row, and
  the same table with an empty third row.\<close>

definition header_row :: node where
  "header_row = Elem ''tr'' [] []
     [Elem ''th'' [] [] [Text ''Time''], Elem ''th'' [] [] [Text ''Room 104''],
      Elem ''th'' [] [] [Text ''Room 211'']]"

definition data_row :: node where
  "data_row = Elem ''tr'' [] []
     [Elem ''td'' [] [] [Text ''9:00 AM''], Elem ''td'' [''reserved''] [] [], Elem ''td'' [] [] []]"

definition page_two_rows :: node where
  "page_two_rows = Elem ''html'' [] [] [Elem ''table'' [] [] [header_row, data_row]]"

definition page_three_rows :: node where
  "page_three_rows =
     Elem ''html'' [] [] [Elem ''table'' [] [] [header_row, data_row, Elem ''tr'' [] [] []]]"

text \<open>A page that shows one reservation twice: in the grid and as an event element.\<close>

definition event_div :: node where
  "event_div = Elem ''div'' [''event''] [] [Text ''Room 104 9:00 AM - 9:30 AM'']"

definition page_redundant :: node where
  "page_redundant =
     Elem ''html'' [] []
       [Elem ''table'' [] [] [header_row, data_row, Elem ''tr'' [] [] []], event_div]"


text \<open>The two records of that reservation: the one of the grid and the one of the element.\<close>

definition grid_record_104 :: "datetime \<Rightarrow> reservation" where
  "grid_record_104 day =
     \<lparr>date = strftime_date day, day_of_week = strftime_A day, start_time = ''09:00'',
       end_time = ''09:30'', duration_hours = 1 / 2, room_name = ''Room 104'',
       room_id = ''Room 104'', hour_of_day = 9, month = month_of day,
       week_of_year = iso_week day, source = ''grid_table''\<rparr>"

definition element_record_104 :: "datetime \<Rightarrow> reservation" where
  "element_record_104 day =
     \<lparr>date = strftime_date day, day_of_week = strftime_A day, start_time = ''09:00'',
       end_time = ''09:30'', duration_hours = 1 / 2, room_name = ''Room 104'',
       room_id = [], hour_of_day = 9, month = month_of day,
       week_of_year = iso_week day, source = ''html_element''\<rparr>"


text \<open>A grid whose time column labels the end of the day \<open>24:00\<close>.\<close>

definition page_label_24 :: node where
  "page_label_24 =
     Elem ''html'' [] []
       [Elem ''table'' [] []
          [header_row,
           Elem ''tr'' [] []
             [Elem ''td'' [] [] [Text ''24:00''], Elem ''td'' [] [] [], Elem ''td'' [] [] []],
           Elem ''tr'' [] [] []]]"

text \<open>The reserved cell as the specification words it: the class or the text contains,
  ignoring case, one of the five keywords.\<close>

definition ci_contains :: "string \<Rightarrow> string \<Rightarrow> bool" where
  "ci_contains k s = sublist (lower k) (lower s)"

definition spec_is_reserved :: "node \<Rightarrow> bool" where
  "spec_is_reserved cell =
     (\<exists>k \<in> set [''reserved'', ''booked'', ''unavailable'', ''occupied'', ''event''].
        ci_contains k (join '' '' (classes_of cell)) \<or> ci_contains k (get_text_strip [] cell))"

definition occupied_cell :: node where
  "occupied_cell = Elem ''td'' [] [] [Text ''Occupied'']"

definition mixed_case_cell :: node where
  "mixed_case_cell = Elem ''td'' [''Reserved''] [] []"





definition item_zero_span :: "(string \<times> jvalue) list" where
  "item_zero_span = [(''startTime'', JStr ''10:00''), (''endTime'', JStr ''10:00''),
                     (''roomName'', JStr [])]"

definition page_zero_span :: node where
  "page_zero_span = Elem ''html'' [] [] [Script [Parsed [JDict item_zero_span]]]"

definition item_no_room :: "(string \<times> jvalue) list" where
  "item_no_room = [(''start'', JStr ''10:00'')]"



text \<open>A list item with a time range and no room, and the records of the room-less examples.\<close>

definition element_no_room :: node where
  "element_no_room = Elem ''li'' [''booking''] [] [Text ''9:00-9:30'']"

definition item_no_room_record :: reservation where
  "item_no_room_record =
     \<lparr>date = strftime_date day1, day_of_week = strftime_A day1, start_time = ''10:00'',
       end_time = ''11:00'', duration_hours = 1, room_name = ''Unknown'',
       room_id = [], hour_of_day = 10, month = month_of day1,
       week_of_year = iso_week day1, source = ''json_embed''\<rparr>"

definition element_no_room_record :: reservation where
  "element_no_room_record =
     \<lparr>date = strftime_date day1, day_of_week = strftime_A day1, start_time = ''09:00'',
       end_time = ''09:30'', duration_hours = 1 / 2, room_name = ''Unknown'',
       room_id = [], hour_of_day = 9, month = month_of day1,
       week_of_year = iso_week day1, source = ''html_element''\<rparr>"



text \<open>A page whose event element both selectors of the third strategy take, and a fetch
  whose first page has the grid with the label \<open>24:00\<close>.\<close>

definition event_div_typed :: node where
  "event_div_typed =
     Elem ''div'' [''event''] [(''data-type'', ''reservation'')] [Text ''Room 104 9:00 AM - 9:30 AM'']"

definition page_repeated :: node where
  "page_repeated =
     Elem ''html'' [] []
       [Elem ''table'' [] [] [header_row, data_row, Elem ''tr'' [] [] []], event_div_typed]"


section \<open>Properties\<close>

subsection \<open>Auxiliary facts\<close>

lemmas space_eval = is_space_def space_len_def wide_spaces_def

lemma drop_dups_set: "set (drop_dups seen xs) = set xs - set seen"
  by (induction xs arbitrary: seen) auto

lemma drop_dups_distinct: "distinct (drop_dups seen xs)"
  by (induction xs arbitrary: seen) (auto simp: drop_dups_set)


lemma for_extend_all:
  assumes "for_extend f xs = Inr rs"
    and "\<And>x a r. x \<in> set xs \<Longrightarrow> f x = Inr a \<Longrightarrow> r \<in> set a \<Longrightarrow> P r"
  shows "\<forall>r \<in> set rs. P r"
  using assms
proof (induction xs arbitrary: rs)
  case Nil
  then show ?case by simp
next
  case (Cons x xs)
  from Cons.prems(1) obtain a b where a: "f x = Inr a" and b: "for_extend f xs = Inr b"
    and rs: "rs = a @ b"
    by (auto split: sum.splits)
  have "\<forall>r \<in> set b. P r"
    by (rule Cons.IH [OF b]) (auto intro: Cons.prems(2))
  moreover have "\<forall>r \<in> set a. P r"
    using a Cons.prems(2) by auto
  ultimately show ?case using rs by auto
qed

text \<open>Evaluation of the strategies on the example pages.\<close>

lemmas grid_eval = strategy_grid_def grid_table_def grid_row_def grid_cell_def find_all_def
  get_text_strip_def strings_def time_match_def digits12_def opt_ampm_def ws0_def is_reserved_def
  any_in_def room_keywords_def class_keywords_def text_keywords_def dir_p_def lit_def two_def one_def
  is_digit_def digit_val_def space_eval strip_def lower_def lower_char_def replace_hm_def
  add_minutes_def strftime_HM_def pad2_def digit_char_def sublist_Cons_right Let_def

lemmas selector_eval = strategy_elements_def class_selector_def data_type_selector_def any_in_def
  lower_def lower_char_def sublist_Cons_right

lemmas time_eval = parse_time_string_def formats_def fmt_I_M_p_def fmt_I_Mp_def fmt_H_M_def
  fmt_I_p_def fmt_iso_def whole_def dir_I_def dir_H_def dir_M_def dir_S_def dir_d_def dir_Y_def
  dir_p_def lit_def two_def one_def in_range_def is_digit_def digit_val_def space_eval strip_def
  lower_def lower_char_def hour12_def replace_hm_def days_in_month_def is_leap_def DAYS_IN_MONTH_def

lemma grid_two_rows: "strategy_grid page_two_rows day = Inr []"
  by (simp add: grid_eval page_two_rows_def header_row_def data_row_def)

lemma json_two_rows: "strategy_json page_two_rows day = Inr []"
  by (simp add: strategy_json_def find_all_def page_two_rows_def header_row_def data_row_def)

lemma elements_two_rows: "strategy_elements page_two_rows day = Inr []"
  by (simp add: selector_eval page_two_rows_def header_row_def data_row_def)

lemma grid_three_rows:
  "ordinal day \<le> MAXORDINAL \<Longrightarrow> strategy_grid page_three_rows day = Inr
     [\<lparr>date = strftime_date day, day_of_week = strftime_A day, start_time = ''09:00'',
       end_time = ''09:30'', duration_hours = 1 / 2, room_name = ''Room 104'',
       room_id = ''Room 104'', hour_of_day = 9, month = month_of day,
       week_of_year = iso_week day, source = ''grid_table''\<rparr>]"
  by (simp add: grid_eval page_three_rows_def header_row_def data_row_def)

lemma json_three_rows: "strategy_json page_three_rows day = Inr []"
  by (simp add: strategy_json_def find_all_def page_three_rows_def header_row_def data_row_def)

lemma elements_three_rows: "strategy_elements page_three_rows day = Inr []"
  by (simp add: selector_eval page_three_rows_def header_row_def data_row_def)

lemma parse_three_rows:
  "ordinal day \<le> MAXORDINAL \<Longrightarrow> parse_time_slots page_three_rows day = Inr [grid_record_104 day]"
  by (simp add: parse_time_slots_def grid_three_rows json_three_rows elements_three_rows
      grid_record_104_def)

lemma day1_valid: "valid_datetime day1"
  by (simp add: valid_datetime_def day1_def MAXORDINAL_def)


lemma range_event_text:
  "time_pattern ''Room 104 9:00 AM - 9:30 AM'' = Some (''9:00 AM'', ''9:30 AM'')"
  by (simp add: range_at_def time_token_def digits12_def two_def one_def is_digit_def digit_val_def
      lit_def lower_char_def ws0_def opt_ampm_def dir_p_def lower_def space_eval en_dash_def)

lemma room_event_text: "room_search None ''Room 104 9:00 AM - 9:30 AM'' = Some ''Room 104''"
  by (simp add: room_at_def lit_str_def lower_def lower_char_def ws0_def space_eval is_digit_def)

lemma parse_900:
  "parse_time_string ''9:00 AM'' day
   = Inr (day\<lparr>hour := 9, minute := 0, second := 0, microsecond := 0\<rparr>)"
  by (simp add: time_eval)

lemma parse_930:
  "parse_time_string ''9:30 AM'' day
   = Inr (day\<lparr>hour := 9, minute := 30, second := 0, microsecond := 0\<rparr>)"
  by (simp add: time_eval)

lemmas span_eval = except_ValueError_def duration_of_def diff_seconds_def usecs_of_def
  secs_of_day_def round2_hours_def strftime_HM_def pad2_def digit_char_def

lemma event_text: "get_text_strip '' '' event_div = ''Room 104 9:00 AM - 9:30 AM''"
  by (simp add: event_div_def get_text_strip_def strings_def strip_def space_eval)

lemma event_div_record: "extract_from_element event_div day = Inr (Some (element_record_104 day))"
  by (simp add: extract_from_element_def event_text Let_def range_event_text room_event_text
      parse_900 parse_930 span_eval element_record_104_def
      del: time_pattern.simps room_search.simps)

lemma grid_redundant:
  "ordinal day \<le> MAXORDINAL \<Longrightarrow> strategy_grid page_redundant day = Inr [grid_record_104 day]"
  by (simp add: grid_eval page_redundant_def header_row_def data_row_def event_div_def
      grid_record_104_def)

lemma json_redundant: "strategy_json page_redundant day = Inr []"
  by (simp add: strategy_json_def find_all_def page_redundant_def header_row_def data_row_def
      event_div_def)

lemma selected_redundant:
  "filter class_selector (descendants page_redundant) = [event_div]"
  "filter data_type_selector (descendants page_redundant) = []"
  by (simp_all add: class_selector_def data_type_selector_def any_in_def lower_def lower_char_def
      sublist_Cons_right page_redundant_def header_row_def data_row_def event_div_def)

lemma elements_redundant: "strategy_elements page_redundant day = Inr [element_record_104 day]"
  by (simp add: strategy_elements_def selected_redundant element_records_def event_div_record)

lemma parse_redundant:
  "ordinal day \<le> MAXORDINAL \<Longrightarrow>
     parse_time_slots page_redundant day = Inr [grid_record_104 day, element_record_104 day]"
  by (simp add: parse_time_slots_def grid_redundant json_redundant elements_redundant)

lemma date_day1: "strftime_date day1 = ''2024-03-01''"
  by (simp add: strftime_date_def day1_def year_of_def month_of_def day_of_def ord2ymd_def
      Let_def DAYS_BEFORE_MONTH_def DAYS_IN_MONTH_def str_nat.simps pad2_def digit_char_def)

lemma loop_one_day:
  assumes "parse_time_slots page day1 = Inr rs"
  shows "collect_loop (\<lambda>d. Some page) (3 / 2) day1 day1 = ([Fetch day1, Sleep (3 / 2)], Inr rs)"
proof -
  have a: "dt_le day1 day1" by (simp add: dt_le_def)
  have b: "add_day day1 = Inr day2" by (simp add: add_day_def day1_def day2_def MAXORDINAL_def)
  have c: "\<not> dt_le day2 day1" by (simp add: dt_le_def dt_key_def day1_def day2_def)
  have e: "collect_loop (\<lambda>d. Some page) (3 / 2) day2 day1 = ([], Inr [])"
    using c by (subst collect_loop.simps) simp
  show ?thesis
    by (subst collect_loop.simps) (simp add: a b e assms)
qed

lemma day1_ordinal: "ordinal day1 \<le> MAXORDINAL"
  by (simp add: day1_def MAXORDINAL_def)

lemma collect_redundant:
  "collect_date_range (\<lambda>d. Some page_redundant) day1 day1 (3 / 2)
   = ([Fetch day1, Sleep (3 / 2)], Inr [grid_record_104 day1, element_record_104 day1])"
  by (simp add: collect_date_range_def loop_one_day [OF parse_redundant [OF day1_ordinal]]
      drop_duplicates_def sort_values_def grid_record_104_def element_record_104_def)


lemma typed_text: "get_text_strip '' '' event_div_typed = ''Room 104 9:00 AM - 9:30 AM''"
  by (simp add: event_div_typed_def get_text_strip_def strings_def strip_def space_eval)

lemma typed_record: "extract_from_element event_div_typed day = Inr (Some (element_record_104 day))"
  by (simp add: extract_from_element_def typed_text Let_def range_event_text room_event_text
      parse_900 parse_930 span_eval element_record_104_def
      del: time_pattern.simps room_search.simps)

lemma grid_repeated:
  "ordinal day \<le> MAXORDINAL \<Longrightarrow> strategy_grid page_repeated day = Inr [grid_record_104 day]"
  by (simp add: grid_eval page_repeated_def header_row_def data_row_def event_div_typed_def
      grid_record_104_def)

lemma json_repeated: "strategy_json page_repeated day = Inr []"
  by (simp add: strategy_json_def find_all_def page_repeated_def header_row_def data_row_def
      event_div_typed_def)

lemma selected_repeated:
  "filter class_selector (descendants page_repeated) = [event_div_typed]"
  "filter data_type_selector (descendants page_repeated) = [event_div_typed]"
  by (simp_all add: class_selector_def data_type_selector_def any_in_def lower_def lower_char_def
      sublist_Cons_right page_repeated_def header_row_def data_row_def event_div_typed_def)

lemma elements_repeated:
  "strategy_elements page_repeated day = Inr [element_record_104 day, element_record_104 day]"
  by (simp add: strategy_elements_def selected_repeated element_records_def typed_record)

lemma parse_repeated:
  "ordinal day \<le> MAXORDINAL \<Longrightarrow>
     parse_time_slots page_repeated day
     = Inr [grid_record_104 day, element_record_104 day, element_record_104 day]"
  by (simp add: parse_time_slots_def grid_repeated json_repeated elements_repeated)

lemma loop_repeated:
  "collect_loop (\<lambda>d. Some page_repeated) (3 / 2) day1 day1
   = ([Fetch day1, Sleep (3 / 2)],
      Inr [grid_record_104 day1, element_record_104 day1, element_record_104 day1])"
  by (rule loop_one_day [OF parse_repeated [OF day1_ordinal]])

lemma collect_repeated:
  "collect_date_range (\<lambda>d. Some page_repeated) day1 day1 (3 / 2)
   = ([Fetch day1, Sleep (3 / 2)], Inr [grid_record_104 day1, element_record_104 day1])"
  by (simp add: collect_date_range_def loop_repeated drop_duplicates_def sort_values_def
      grid_record_104_def element_record_104_def)

lemma time_match_nbsp:
  "time_match (''9:00'' @ [CHR 0xC2, CHR 0xA0] @ ''PM'') = Some (9, 0, Some True)"
  by (simp add: time_match_def digits12_def two_def one_def is_digit_def digit_val_def lit_def
      lower_char_def ws0_def opt_ampm_def dir_p_def lower_def space_eval)


subsection \<open>Deduplication\<close>

text \<open>
  Claim C1, as the code has it: \<open>drop_duplicates\<close> compares whole rows. The final dataset
  holds exactly the records that the loop has accumulated, each of them once: records that
  agree in every field are collapsed to one, and records that agree on date, room name,
  start and end and differ in another field are all kept.
\<close>

theorem collect_drops_identical_rows:
  assumes "collect_date_range fetch start_date end_date delay = (trace, Inr rs)"
  shows "(\<exists>all_records. collect_loop fetch delay start_date end_date = (trace, Inr all_records)
            \<and> set rs = set all_records)
         \<and> distinct rs"
proof -
  obtain tr res where loop: "collect_loop fetch delay start_date end_date = (tr, res)"
    by (cases "collect_loop fetch delay start_date end_date") auto
  with assms obtain all_records where res: "res = Inr all_records" and tr: "tr = trace"
    by (cases res) (auto simp: collect_date_range_def split: if_splits)
  from assms loop res have rs: "rs = (if all_records = [] then []
      else sort_values (drop_duplicates all_records))"
    by (auto simp: collect_date_range_def split: if_splits)
  then have "set rs = set all_records" "distinct rs"
    by (simp_all add: sort_values_def drop_duplicates_def drop_dups_set drop_dups_distinct)
  with loop res tr show ?thesis by simp
qed

theorem collect_drops_identical_rows_witness:
  "collect_date_range (\<lambda>d. Some page_repeated) day1 day1 (3 / 2)
     = ([Fetch day1, Sleep (3 / 2)], Inr [grid_record_104 day1, element_record_104 day1])
   \<and> collect_loop (\<lambda>d. Some page_repeated) (3 / 2) day1 day1
     = ([Fetch day1, Sleep (3 / 2)],
        Inr [grid_record_104 day1, element_record_104 day1, element_record_104 day1])
   \<and> set [grid_record_104 day1, element_record_104 day1]
     = set [grid_record_104 day1, element_record_104 day1, element_record_104 day1]
   \<and> distinct [grid_record_104 day1, element_record_104 day1]"
  using collect_drops_identical_rows [OF collect_repeated] collect_repeated loop_repeated
  by simp

text \<open>
  Claim C1 as stated fails: on 2024-03-01 a page shows the reservation of Room 104 from
  09:00 to 09:30 both in its grid and as an event element. The final dataset keeps both
  records, which agree on date, room name, start and end and differ in their source.
\<close>

theorem same_slot_two_sources_kept:
  "map (\<lambda>r. (date r, room_name r, start_time r, end_time r, source r))
     (projr (snd (collect_date_range (\<lambda>d. Some page_redundant) day1 day1 (3 / 2))))
   = [(''2024-03-01'', ''Room 104'', ''09:00'', ''09:30'', ''grid_table''),
      (''2024-03-01'', ''Room 104'', ''09:00'', ''09:30'', ''html_element'')]"
  by (simp add: collect_redundant grid_record_104_def element_record_104_def date_day1)


subsection \<open>The end-to-end grid scenario\<close>

text \<open>
  Claim C3, as the code has it: a table is read as a grid only when it has at least three
  rows. On any calendar day, the page whose single table has the header row
  \<open>["Time", "Room 104", "Room 211"]\<close>, the data row with first cell \<open>9:00 AM\<close>, second cell
  of class \<open>reserved\<close> and third cell of empty class, and one more row without cells, yields
  exactly one record: room \<open>Room 104\<close>, start 09:00, end 09:30, source \<open>grid_table\<close>.
\<close>

theorem scenario_three_rows:
  "valid_datetime day \<Longrightarrow> parse_time_slots page_three_rows day = Inr
     [\<lparr>date = strftime_date day, day_of_week = strftime_A day, start_time = ''09:00'',
       end_time = ''09:30'', duration_hours = 1 / 2, room_name = ''Room 104'',
       room_id = ''Room 104'', hour_of_day = 9, month = month_of day,
       week_of_year = iso_week day, source = ''grid_table''\<rparr>]"
  by (simp add: valid_datetime_def parse_three_rows grid_record_104_def)

theorem scenario_three_rows_witness:
  "valid_datetime day1 \<and>
   map (\<lambda>r. (room_name r, start_time r, end_time r, source r))
     (projr (parse_time_slots page_three_rows day1))
   = [(''Room 104'', ''09:00'', ''09:30'', ''grid_table'')]"
  using scenario_three_rows [OF day1_valid] by (simp add: day1_valid)

text \<open>
  Claim C3 as stated fails: the table of the scenario has two rows, fewer than three, so
  it is skipped and the page yields no record.
\<close>

theorem scenario_two_rows_no_record: "parse_time_slots page_two_rows day1 = Inr []"
  by (simp add: parse_time_slots_def grid_two_rows json_two_rows elements_two_rows)


subsection \<open>The orchestrator on an empty range\<close>

text \<open>
  Claim C2, as the code has it: a range whose start is after its end is not an error. The
  loop body never runs, so \<open>collect_date_range\<close> returns the empty dataset, having fetched
  nothing and slept not at all.
\<close>

theorem collect_empty_range:
  "\<not> dt_le start_date end_date \<Longrightarrow>
     collect_date_range fetch start_date end_date delay = ([], Inr [])"
  by (simp add: collect_date_range_def collect_loop.simps)

theorem collect_empty_range_witness:
  "\<not> dt_le day2 day1 \<and> collect_date_range (\<lambda>d. None) day2 day1 (3 / 2) = ([], Inr [])"
  using collect_empty_range [of day2 day1 "\<lambda>d. None" "3 / 2"]
  by (simp add: dt_le_def dt_key_def day1_def day2_def)

text \<open>
  Claim C2 as stated fails: from 2024-03-02 to 2024-03-01 the result is a dataset, the
  empty one, and no exception.
\<close>

theorem start_after_end_not_fatal:
  "snd (collect_date_range (\<lambda>d. Some (Elem ''html'' [] [] [])) day2 day1 (3 / 2)) = Inr []"
  by (simp add: collect_date_range_def collect_loop.simps dt_le_def dt_key_def day1_def day2_def)


subsection \<open>An exception of the grid strategy\<close>

lemma parse_label_24: "parse_time_slots page_label_24 day = Inl ValueError"
  by (simp add: parse_time_slots_def grid_eval page_label_24_def header_row_def)

text \<open>
  Claim C5 fails on the code: the grid strategy builds the slot time with \<open>replace\<close>
  outside any \<open>try\<close>, so a time label whose hour is above 23 or whose minute is above 59
  raises \<open>ValueError\<close> out of \<open>parse_time_slots\<close>. Here the label is \<open>24:00\<close>.
\<close>

theorem grid_label_24_raises: "parse_time_slots page_label_24 day1 = Inl ValueError"
  by (rule parse_label_24)


subsection \<open>Reserved cells\<close>

lemma lower_join: "lower (join sep xs) = join (lower sep) (map lower xs)"
  by (induction sep xs rule: join.induct) (simp_all add: lower_def)

text \<open>
  Claim C6, as the code has it: a slot cell is reserved exactly when its class contains,
  ignoring case, one of \<open>reserved\<close>, \<open>booked\<close>, \<open>unavailable\<close>, \<open>occupied\<close>, \<open>event\<close>, or its
  text contains, ignoring case, one of \<open>reserved\<close>, \<open>booked\<close>, \<open>unavailable\<close>. Two cells
  whose classes and texts differ in case only are classified alike.
\<close>

theorem is_reserved_iff:
  "(is_reserved cell \<longleftrightarrow>
      (\<exists>k \<in> set [''reserved'', ''booked'', ''unavailable'', ''occupied'', ''event''].
         ci_contains k (join '' '' (classes_of cell)))
      \<or> (\<exists>k \<in> set [''reserved'', ''booked'', ''unavailable''].
         ci_contains k (get_text_strip [] cell)))
   \<and> (map lower (classes_of cell) = map lower (classes_of cell') \<and>
        lower (get_text_strip [] cell) = lower (get_text_strip [] cell')
        \<longrightarrow> is_reserved cell = is_reserved cell')"
proof
  show "is_reserved cell \<longleftrightarrow>
      (\<exists>k \<in> set [''reserved'', ''booked'', ''unavailable'', ''occupied'', ''event''].
         ci_contains k (join '' '' (classes_of cell)))
      \<or> (\<exists>k \<in> set [''reserved'', ''booked'', ''unavailable''].
         ci_contains k (get_text_strip [] cell))"
    by (simp add: is_reserved_def any_in_def ci_contains_def class_keywords_def text_keywords_def
        lower_def lower_char_def)
  show "map lower (classes_of cell) = map lower (classes_of cell') \<and>
        lower (get_text_strip [] cell) = lower (get_text_strip [] cell')
        \<longrightarrow> is_reserved cell = is_reserved cell'"
    by (simp add: is_reserved_def lower_join)
qed

theorem is_reserved_iff_witness:
  "is_reserved mixed_case_cell \<and> is_reserved (Elem ''td'' [''reserved''] [] [])"
proof -
  have same: "map lower (classes_of mixed_case_cell)
                = map lower (classes_of (Elem ''td'' [''reserved''] [] []))
              \<and> lower (get_text_strip [] mixed_case_cell)
                = lower (get_text_strip [] (Elem ''td'' [''reserved''] [] []))"
    by (simp add: mixed_case_cell_def lower_def lower_char_def get_text_strip_def strings_def)
  have "ci_contains ''reserved'' (join '' '' (classes_of mixed_case_cell))"
    by (simp add: mixed_case_cell_def ci_contains_def lower_def lower_char_def)
  with is_reserved_iff [of mixed_case_cell "Elem ''td'' [''reserved''] [] []"] same
  show ?thesis by auto
qed

text \<open>
  Claim C6 as stated fails: a cell without class whose text is \<open>Occupied\<close> contains a
  keyword of the set of five, and the grid strategy does not take it as reserved.
\<close>

theorem occupied_text_not_reserved:
  "spec_is_reserved occupied_cell \<and> \<not> is_reserved occupied_cell"
  by (simp add: spec_is_reserved_def is_reserved_def occupied_cell_def ci_contains_def any_in_def
      class_keywords_def text_keywords_def get_text_strip_def strings_def strip_def space_eval
      lower_def lower_char_def sublist_Cons_right)

subsection \<open>Time spans\<close>

lemma try_formats_fields:
  "try_formats fs s d = Inr t \<Longrightarrow>
     ordinal t = ordinal d \<and> hour t < 24 \<and> minute t < 60 \<and> second t = 0 \<and> microsecond t = 0"
  by (induction fs) (auto simp: replace_hm_def split: sum.splits if_splits)

lemma parse_time_string_fields:
  "parse_time_string s d = Inr t \<Longrightarrow>
     ordinal t = ordinal d \<and> hour t < 24 \<and> minute t < 60 \<and> second t = 0 \<and> microsecond t = 0"
  unfolding parse_time_string_def by (rule try_formats_fields)

lemma diff_seconds_same_day:
  assumes "ordinal e = ordinal s" "microsecond e = microsecond s"
  shows "diff_seconds e s = nat ((secs_of_day e - secs_of_day s) mod 86400)"
proof -
  have "usecs_of e - usecs_of s = (secs_of_day e - secs_of_day s) * 1000000"
    using assms by (simp add: usecs_of_def algebra_simps)
  then show ?thesis by (simp add: diff_seconds_def)
qed

lemma add_minutes_total:
  assumes "add_minutes s n = Inr e"
  shows "(ordinal e * 1440 + hour e * 60 + minute e = ordinal s * 1440 + hour s * 60 + minute s + n)
         \<and> hour e < 24 \<and> minute e < 60 \<and> second e = second s \<and> microsecond e = microsecond s"
proof -
  define t where "t = hour s * 60 + minute s + n"
  from assms have e: "e = s\<lparr>ordinal := ordinal s + t div 1440,
      hour := t mod 1440 div 60, minute := t mod 60\<rparr>"
    by (auto simp: add_minutes_def Let_def t_def split: if_splits)
  have "t mod 1440 mod 60 = t mod 60" by (simp add: mod_mod_cancel)
  with div_mult_mod_eq [of "t mod 1440" 60]
  have A: "(t mod 1440 div 60) * 60 + t mod 60 = t mod 1440" by simp
  have B: "(t div 1440) * 1440 + t mod 1440 = t" by simp
  have "(ordinal s + t div 1440) * 1440 + (t mod 1440 div 60) * 60 + t mod 60
      = ordinal s * 1440 + t"
    using A B unfolding add_mult_distrib by linarith
  moreover have "t mod 1440 div 60 < 24"
    by (rule less_mult_imp_div_less) simp
  ultimately show ?thesis by (simp add: e t_def)
qed

lemma add_hour_duration:
  assumes "add_minutes s 60 = Inr e"
  shows "duration_of e s = 1"
proof -
  from add_minutes_total [OF assms]
  have m: "ordinal e * 1440 + hour e * 60 + minute e = ordinal s * 1440 + hour s * 60 + minute s + 60"
    and f: "second e = second s" "microsecond e = microsecond s" by simp_all
  from m have "int (ordinal e) * 1440 + int (hour e) * 60 + int (minute e)
      = int (ordinal s) * 1440 + int (hour s) * 60 + int (minute s) + 60"
    by (metis (mono_tags, opaque_lifting) of_nat_add of_nat_mult of_nat_numeral)
  then have "usecs_of e - usecs_of s = 3600 * 1000000"
    using f by (simp add: usecs_of_def secs_of_day_def algebra_simps)
  then show ?thesis by (simp add: duration_of_def diff_seconds_def round2_hours_def)
qed

lemma same_day_zero_span:
  assumes "ordinal e = ordinal s" "second e = 0" "second s = 0" "microsecond e = 0" "microsecond s = 0"
    "hour e < 24" "hour s < 24" "minute e < 60" "minute s < 60" "duration_of e s = 0"
  shows "strftime_HM e = strftime_HM s"
proof -
  define a where "a = int (hour e) * 60 + int (minute e)"
  define b where "b = int (hour s) * 60 + int (minute s)"
  have ab: "0 \<le> a" "a < 1440" "0 \<le> b" "b < 1440"
    using assms by (simp_all add: a_def b_def)
  have d: "diff_seconds e s = nat ((60 * (a - b)) mod 86400)"
    using assms by (simp add: diff_seconds_same_day secs_of_day_def a_def b_def algebra_simps)
  from assms(10) have "diff_seconds e s < 18"
    by (simp add: duration_of_def round2_hours_def)
  with d have small: "(60 * (a - b)) mod 86400 < 18" by simp
  have "a = b"
  proof (cases "b \<le> a")
    case True
    with ab have "(60 * (a - b)) mod 86400 = 60 * (a - b)" by (simp add: mod_pos_pos_trivial)
    with small show ?thesis by simp
  next
    case False
    define x where "x = 60 * (a - b)"
    have 1: "(x + 86400) mod 86400 = x + 86400"
      by (rule mod_pos_pos_trivial) (use False ab in \<open>simp_all add: x_def\<close>)
    have 2: "(x + 86400) mod 86400 = x mod 86400" by simp
    from 1 2 have "x mod 86400 = x + 86400" by linarith
    with small ab show ?thesis by (simp add: x_def)
  qed
  then have n: "hour e * 60 + minute e = hour s * 60 + minute s"
    unfolding a_def b_def by (metis (mono_tags, opaque_lifting) of_nat_add of_nat_eq_iff of_nat_mult of_nat_numeral)
  have "(hour e * 60 + minute e) div 60 = hour e" "(hour s * 60 + minute s) div 60 = hour s"
    "(hour e * 60 + minute e) mod 60 = minute e" "(hour s * 60 + minute s) mod 60 = minute s"
    using assms(8,9) by simp_all
  with n have "hour e = hour s \<and> minute e = minute s" by metis
  then show ?thesis by (simp add: strftime_HM_def)
qed

lemma span_positive_or_equal:
  assumes "parse_time_string a day = Inr s" "parse_time_string b day = Inr e"
  shows "0 < duration_of e s \<or> strftime_HM e = strftime_HM s"
proof (cases "duration_of e s = 0")
  case True
  with parse_time_string_fields [OF assms(1)] parse_time_string_fields [OF assms(2)]
  show ?thesis by (simp add: same_day_zero_span)
next
  case False
  moreover have "0 \<le> duration_of e s" by (simp add: duration_of_def round2_hours_def)
  ultimately show ?thesis by simp
qed

lemma grid_cell_records:
  assumes "grid_cell day slot hr headers ic = Inr a" "r \<in> set a"
  shows "source r = ''grid_table'' \<and> room_id r = room_name r \<and> duration_hours r = 1 / 2
      \<and> date r = strftime_date day"
proof (cases "is_reserved (snd ic)")
  case False
  with assms show ?thesis by (simp add: grid_cell_def Let_def)
next
  case True
  show ?thesis
  proof (cases "add_minutes slot 30")
    case (Inl e)
    with True assms show ?thesis by (simp add: grid_cell_def Let_def)
  next
    case (Inr slot_end)
    with True assms show ?thesis by (auto simp: grid_cell_def Let_def)
  qed
qed

subsection \<open>Where the records come from\<close>

lemma grid_row_records:
  assumes "grid_row day headers row = Inr a" "r \<in> set a"
  shows "source r = ''grid_table'' \<and> room_id r = room_name r \<and> duration_hours r = 1 / 2
      \<and> date r = strftime_date day"
proof (cases "find_all [''td'', ''th''] row")
  case Nil
  with assms show ?thesis by (simp add: grid_row_def)
next
  case (Cons c cells)
  show ?thesis
  proof (cases "time_match (get_text_strip [] c)")
    case None
    with Cons assms show ?thesis by (simp add: grid_row_def)
  next
    case (Some t)
    obtain h m mer where t: "t = (h, m, mer)" by (cases t) auto
    define hr where "hr = (if mer = Some True \<and> h \<noteq> 12 then h + 12
                          else if mer = Some False \<and> h = 12 then 0 else h)"
    have row: "grid_row day headers row =
        (case replace_hm day hr m of Inl e \<Rightarrow> Inl e
         | Inr slot_time \<Rightarrow> for_extend (grid_cell day slot_time hr headers) (enumerate 1 cells))"
      unfolding grid_row_def hr_def by (simp only: Cons Some t list.case option.case prod.case Let_def)
    show ?thesis
    proof (cases "replace_hm day hr m")
      case (Inl e)
      with row assms show ?thesis by simp
    next
      case (Inr slot_time)
      with row assms(1)
      have "for_extend (grid_cell day slot_time hr headers) (enumerate 1 cells) = Inr a" by simp
      from for_extend_all [OF this, of "\<lambda>r. source r = ''grid_table'' \<and> room_id r = room_name r
          \<and> duration_hours r = 1 / 2
      \<and> date r = strftime_date day"] grid_cell_records assms(2)
      show ?thesis by blast
    qed
  qed
qed

lemma grid_table_records:
  assumes "grid_table day table = Inr a" "r \<in> set a"
  shows "source r = ''grid_table'' \<and> room_id r = room_name r \<and> duration_hours r = 1 / 2
      \<and> date r = strftime_date day"
proof -
  define rows where "rows = find_all [''tr''] table"
  define headers where "headers = map (get_text_strip []) (find_all [''th'', ''td''] (hd rows))"
  have tab: "grid_table day table =
      (if length rows < 3 then Inr []
       else if \<not> any_in room_keywords (lower (join '' '' headers)) then Inr []
       else for_extend (grid_row day headers) (tl rows))"
    by (simp only: grid_table_def Let_def rows_def headers_def)
  show ?thesis
  proof (cases "length rows < 3 \<or> \<not> any_in room_keywords (lower (join '' '' headers))")
    case True
    with tab assms(1) have "a = []" by (auto split: if_splits)
    with assms(2) show ?thesis by simp
  next
    case False
    with tab assms(1) have "for_extend (grid_row day headers) (tl rows) = Inr a" by (auto split: if_splits)
    from for_extend_all [OF this, of "\<lambda>r. source r = ''grid_table'' \<and> room_id r = room_name r
        \<and> duration_hours r = 1 / 2
      \<and> date r = strftime_date day"] grid_row_records assms(2)
    show ?thesis by blast
  qed
qed

lemma grid_records:
  assumes "strategy_grid soup day = Inr a" "r \<in> set a"
  shows "source r = ''grid_table'' \<and> room_id r = room_name r \<and> duration_hours r = 1 / 2
      \<and> date r = strftime_date day"
  using for_extend_all [OF assms(1) [unfolded strategy_grid_def],
      of "\<lambda>r. source r = ''grid_table'' \<and> room_id r = room_name r \<and> duration_hours r = 1 / 2
      \<and> date r = strftime_date day"]
    grid_table_records assms(2)
  by blast

lemma json_records:
  assumes "strategy_json soup day = Inr b" "r \<in> set b"
  shows "\<exists>item. extract_from_json_item item day = Inr (Some r)"
proof -
  let ?J = "\<lambda>r. \<exists>item. extract_from_json_item item day = Inr (Some r)"
  have item: "?J r" if "json_item_records day it = Inr a" "r \<in> set a" for it a r
    using that by (auto simp: json_item_records_def split: json_item.splits sum.splits option.splits)
  have block: "?J r" if "json_block_records day bl = Inr a" "r \<in> set a" for bl a r
  proof (cases bl)
    case Malformed
    with that show ?thesis by (simp add: json_block_records_def)
  next
    case (Parsed data)
    with that(1) have "for_extend (json_item_records day) data = Inr a"
      by (simp add: json_block_records_def)
    from for_extend_all [OF this, where P = ?J] item that(2) show ?thesis by blast
  qed
  have script: "?J r" if "for_extend (json_block_records day) (blocks_of sc) = Inr a" "r \<in> set a"
    for sc a r
    using for_extend_all [OF that(1), where P = ?J] block that(2) by blast
  from for_extend_all [OF assms(1) [unfolded strategy_json_def], where P = ?J] script assms(2)
  show ?thesis by blast
qed

lemma element_strategy_records:
  assumes "strategy_elements soup day = Inr c" "r \<in> set c"
  shows "\<exists>element. extract_from_element element day = Inr (Some r)"
proof -
  let ?E = "\<lambda>r. \<exists>element. extract_from_element element day = Inr (Some r)"
  have el: "?E r" if "element_records day x = Inr a" "r \<in> set a" for x a r
    using that by (auto simp: element_records_def split: sum.splits option.splits)
  have sel: "?E r"
    if "for_extend (element_records day) (filter p (descendants soup)) = Inr a" "r \<in> set a"
    for p a r
    using for_extend_all [OF that(1), where P = ?E] el that(2) by blast
  from for_extend_all [OF assms(1) [unfolded strategy_elements_def], where P = ?E] sel assms(2)
  show ?thesis by blast
qed

lemma parse_time_slots_records:
  assumes "parse_time_slots soup day = Inr rs" "r \<in> set rs"
  shows "(\<exists>a. strategy_grid soup day = Inr a \<and> r \<in> set a)
       \<or> (\<exists>item. extract_from_json_item item day = Inr (Some r))
       \<or> (\<exists>element. extract_from_element element day = Inr (Some r))"
proof -
  from assms(1) obtain a b c where abc: "strategy_grid soup day = Inr a"
    "strategy_json soup day = Inr b" "strategy_elements soup day = Inr c" "rs = a @ b @ c"
    by (auto simp: parse_time_slots_def split: sum.splits)
  with assms(2) consider "r \<in> set a" | "r \<in> set b" | "r \<in> set c" by auto
  then show ?thesis
  proof cases
    case 1
    with abc show ?thesis by blast
  next
    case 2
    with json_records [OF abc(2)] show ?thesis by blast
  next
    case 3
    with element_strategy_records [OF abc(3)] show ?thesis by blast
  qed
qed

lemma except_ValueError_Some:
  "except_ValueError x = Inr (Some r) \<Longrightarrow> x = Inr r"
  by (cases x) (auto simp: except_ValueError_def split: if_splits)

lemma json_item_shape:
  assumes "extract_from_json_item item day = Inr (Some r)"
  obtains sv s e where
    "first_key time_keys item = Some sv" "py_truthy sv"
    "parse_time_string (py_str sv) day = Inr s"
    "(case first_key end_keys item of
        None \<Rightarrow> add_minutes s 60
      | Some ev \<Rightarrow> if py_truthy ev then parse_time_string (py_str ev) day
                   else add_minutes s 60) = Inr e"
    "r = \<lparr>date = strftime_date day, day_of_week = strftime_A day,
          start_time = strftime_HM s, end_time = strftime_HM e,
          duration_hours = duration_of e s,
          room_name = (case first_key room_keys item of Some v \<Rightarrow> py_str v | None \<Rightarrow> ''Unknown''),
          room_id = json_room_id item, hour_of_day = hour s,
          month = month_of day, week_of_year = iso_week day, source = ''json_embed''\<rparr>"
proof (cases "first_key time_keys item")
  case None
  with assms show ?thesis by (simp add: extract_from_json_item_def)
next
  case (Some sv)
  show ?thesis
  proof (cases "py_truthy sv")
    case False
    with Some assms show ?thesis by (simp add: extract_from_json_item_def)
  next
    case True
    let ?end = "\<lambda>s. (case first_key end_keys item of
        None \<Rightarrow> add_minutes s 60
      | Some ev \<Rightarrow> if py_truthy ev then parse_time_string (py_str ev) day
                   else add_minutes s 60)"
    from Some True assms have x: "(case parse_time_string (py_str sv) day of
                  Inl e \<Rightarrow> Inl e
                | Inr start_dt \<Rightarrow>
                    (case ?end start_dt
                     of Inl e \<Rightarrow> Inl e
                      | Inr end_dt \<Rightarrow>
                          Inr \<lparr>date = strftime_date day, day_of_week = strftime_A day,
                               start_time = strftime_HM start_dt, end_time = strftime_HM end_dt,
                               duration_hours = duration_of end_dt start_dt,
                               room_name = (case first_key room_keys item of Some v \<Rightarrow> py_str v | None \<Rightarrow> ''Unknown''),
                               room_id = json_room_id item, hour_of_day = hour start_dt,
                               month = month_of day, week_of_year = iso_week day,
                               source = ''json_embed''\<rparr>)) = Inr r"
      by (intro except_ValueError_Some) (simp add: extract_from_json_item_def Let_def)
    then obtain s where s: "parse_time_string (py_str sv) day = Inr s"
      by (cases "parse_time_string (py_str sv) day") auto
    with x obtain e where e: "?end s = Inr e"
      by (cases "?end s") auto
    from x s e have "r = \<lparr>date = strftime_date day, day_of_week = strftime_A day,
          start_time = strftime_HM s, end_time = strftime_HM e,
          duration_hours = duration_of e s,
          room_name = (case first_key room_keys item of Some v \<Rightarrow> py_str v | None \<Rightarrow> ''Unknown''),
          room_id = json_room_id item, hour_of_day = hour s,
          month = month_of day, week_of_year = iso_week day, source = ''json_embed''\<rparr>"
      by simp
    with Some True s e show ?thesis by (rule that)
  qed
qed

lemma element_shape:
  assumes "extract_from_element element day = Inr (Some r)"
  obtains g1 g2 s e where
    "time_pattern (get_text_strip '' '' element) = Some (g1, g2)"
    "parse_time_string g1 day = Inr s" "parse_time_string g2 day = Inr e"
    "r = \<lparr>date = strftime_date day, day_of_week = strftime_A day,
          start_time = strftime_HM s, end_time = strftime_HM e,
          duration_hours = duration_of e s,
          room_name =
            (case room_search None (get_text_strip '' '' element) of
               Some m \<Rightarrow> m
             | None \<Rightarrow>
                 (case map_of (attrs_of element) ''data-room'' of
                    Some v \<Rightarrow> v | None \<Rightarrow> ''Unknown'')),
          room_id = [], hour_of_day = hour s,
          month = month_of day, week_of_year = iso_week day, source = ''html_element''\<rparr>"
proof (cases "time_pattern (get_text_strip '' '' element)")
  case None
  with assms show ?thesis by (simp add: extract_from_element_def Let_def)
next
  case (Some g)
  obtain g1 g2 where g: "g = (g1, g2)" by (cases g) auto
  let ?room = "(case room_search None (get_text_strip '' '' element) of
               Some m \<Rightarrow> m
             | None \<Rightarrow>
                 (case map_of (attrs_of element) ''data-room'' of
                    Some v \<Rightarrow> v | None \<Rightarrow> ''Unknown''))"
  from Some g assms have x: "(case parse_time_string g1 day of
                  Inl e \<Rightarrow> Inl e
                | Inr start_dt \<Rightarrow>
                    (case parse_time_string g2 day of
                       Inl e \<Rightarrow> Inl e
                     | Inr end_dt \<Rightarrow>
                         Inr \<lparr>date = strftime_date day, day_of_week = strftime_A day,
                              start_time = strftime_HM start_dt, end_time = strftime_HM end_dt,
                              duration_hours = duration_of end_dt start_dt,
                              room_name = ?room,
                              room_id = [], hour_of_day = hour start_dt,
                              month = month_of day, week_of_year = iso_week day,
                              source = ''html_element''\<rparr>)) = Inr r"
    by (intro except_ValueError_Some) (simp add: extract_from_element_def Let_def)
  then obtain s where s: "parse_time_string g1 day = Inr s"
    by (cases "parse_time_string g1 day") auto
  with x obtain e where e: "parse_time_string g2 day = Inr e"
    by (cases "parse_time_string g2 day") auto
  from x s e have "r = \<lparr>date = strftime_date day, day_of_week = strftime_A day,
          start_time = strftime_HM s, end_time = strftime_HM e,
          duration_hours = duration_of e s, room_name = ?room,
          room_id = [], hour_of_day = hour s,
          month = month_of day, week_of_year = iso_week day, source = ''html_element''\<rparr>"
    by simp
  with Some g s e show ?thesis by (auto intro: that)
qed

lemma json_span:
  assumes "extract_from_json_item item day = Inr (Some r)"
  shows "0 < duration_hours r \<or> start_time r = end_time r"
proof -
  from assms obtain sv s e where
    s: "parse_time_string (py_str sv) day = Inr s"
    and e: "(case first_key end_keys item of
        None \<Rightarrow> add_minutes s 60
      | Some ev \<Rightarrow> if py_truthy ev then parse_time_string (py_str ev) day
                   else add_minutes s 60) = Inr e"
    and r: "start_time r = strftime_HM s" "end_time r = strftime_HM e"
      "duration_hours r = duration_of e s"
    by (rule json_item_shape) simp
  from e consider "add_minutes s 60 = Inr e" | ev where "parse_time_string (py_str ev) day = Inr e"
    by (auto split: option.splits if_splits)
  then show ?thesis
  proof cases
    case 1
    then show ?thesis using r by (simp add: add_hour_duration)
  next
    case 2
    from span_positive_or_equal [OF s 2] r show ?thesis by auto
  qed
qed

lemma element_span:
  assumes "extract_from_element element day = Inr (Some r)"
  shows "0 < duration_hours r \<or> start_time r = end_time r"
proof -
  from assms obtain g1 g2 s e where
    s: "parse_time_string g1 day = Inr s" and e: "parse_time_string g2 day = Inr e"
    and r: "start_time r = strftime_HM s" "end_time r = strftime_HM e"
      "duration_hours r = duration_of e s"
    by (rule element_shape) simp
  from span_positive_or_equal [OF s e] r show ?thesis by auto
qed



lemma parse_1000:
  "parse_time_string ''10:00'' day = Inr (day\<lparr>hour := 10, minute := 0, second := 0, microsecond := 0\<rparr>)"
  by (simp add: time_eval)

lemmas key_eval = time_keys_def end_keys_def room_keys_def json_room_id_def



lemma item_zero_span_record:
  "extract_from_json_item item_zero_span day = Inr (Some
     \<lparr>date = strftime_date day, day_of_week = strftime_A day, start_time = ''10:00'',
       end_time = ''10:00'', duration_hours = 0, room_name = [],
       room_id = [], hour_of_day = 10, month = month_of day,
       week_of_year = iso_week day, source = ''json_embed''\<rparr>)"
  by (simp add: extract_from_json_item_def item_zero_span_def key_eval parse_1000 span_eval)

lemma page_zero_span_records:
  "parse_time_slots page_zero_span day = Inr
     [\<lparr>date = strftime_date day, day_of_week = strftime_A day, start_time = ''10:00'',
       end_time = ''10:00'', duration_hours = 0, room_name = [],
       room_id = [], hour_of_day = 10, month = month_of day,
       week_of_year = iso_week day, source = ''json_embed''\<rparr>]"
  by (simp add: parse_time_slots_def strategy_grid_def strategy_json_def strategy_elements_def
      find_all_def page_zero_span_def json_block_records_def json_item_records_def
      item_zero_span_record selector_eval)







subsection \<open>A span that ends before it starts\<close>





subsection \<open>Invariants of the records\<close>

lemma json_source:
  assumes "extract_from_json_item item day = Inr (Some r)"
  shows "source r = ''json_embed'' \<and> room_id r = json_room_id item
         \<and> (first_key room_keys item = None \<longrightarrow> room_name r = ''Unknown'')"
  using assms by (rule json_item_shape) simp

lemma element_source:
  assumes "extract_from_element element day = Inr (Some r)"
  shows "source r = ''html_element'' \<and> room_id r = []
         \<and> (room_search None (get_text_strip '' '' element) = None
              \<and> map_of (attrs_of element) ''data-room'' = None \<longrightarrow> room_name r = ''Unknown'')"
  using assms by (rule element_shape) simp

lemma item_no_room_eval:
  "extract_from_json_item item_no_room day1 = Inr (Some item_no_room_record)"
  "first_key room_keys item_no_room = None"
  by (simp_all add: extract_from_json_item_def item_no_room_def key_eval parse_1000 span_eval
      add_minutes_def MAXORDINAL_def day1_def item_no_room_record_def)

lemma parse_900_24:
  "parse_time_string ''9:00'' day = Inr (day\<lparr>hour := 9, minute := 0, second := 0, microsecond := 0\<rparr>)"
  by (simp add: time_eval)

lemma parse_930_24:
  "parse_time_string ''9:30'' day = Inr (day\<lparr>hour := 9, minute := 30, second := 0, microsecond := 0\<rparr>)"
  by (simp add: time_eval)

lemma text_no_room: "get_text_strip '' '' element_no_room = ''9:00-9:30''"
  by (simp add: element_no_room_def get_text_strip_def strings_def strip_def space_eval)

lemma range_no_room: "time_pattern ''9:00-9:30'' = Some (''9:00'', ''9:30'')"
  by (simp add: range_at_def time_token_def digits12_def two_def one_def is_digit_def digit_val_def
      lit_def lower_char_def ws0_def opt_ampm_def dir_p_def lower_def space_eval en_dash_def)

lemma room_no_room: "room_search None ''9:00-9:30'' = None"
  by (simp add: room_at_def lit_str_def lower_def lower_char_def ws0_def space_eval is_digit_def
      is_word_def in_range_def)

lemma element_no_room_eval:
  "extract_from_element element_no_room day1 = Inr (Some element_no_room_record)"
  "room_search None (get_text_strip '' '' element_no_room) = None"
  "map_of (attrs_of element_no_room) ''data-room'' = None"
    apply (simp add: extract_from_element_def text_no_room Let_def range_no_room room_no_room
      parse_900_24 parse_930_24 span_eval element_no_room_record_def
      del: time_pattern.simps room_search.simps)
   apply (simp add: element_no_room_def)
   apply (simp only: text_no_room room_no_room)
  apply (simp add: element_no_room_def)
  done

text \<open>
  Claim C7, as the code has it: the duration of every record of the three strategies is
  strictly positive unless its start and end times coincide, and a grid record has half
  an hour. The room name is the placeholder \<open>Unknown\<close> when a JSON object has none of the
  room keys, and when the text of an element has no room pattern and the element no
  \<open>data-room\<close> attribute. A room name that is found is kept as it is.
\<close>

theorem record_invariants:
  "(parse_time_slots soup day = Inr rs \<and> r \<in> set rs \<longrightarrow>
      (0 < duration_hours r \<or> start_time r = end_time r)
      \<and> (source r = ''grid_table'' \<longrightarrow> duration_hours r = 1 / 2))
   \<and> (extract_from_json_item item day = Inr (Some r1) \<and> first_key room_keys item = None
        \<longrightarrow> room_name r1 = ''Unknown'')
   \<and> (extract_from_element element day = Inr (Some r2)
        \<and> room_search None (get_text_strip '' '' element) = None
        \<and> map_of (attrs_of element) ''data-room'' = None
        \<longrightarrow> room_name r2 = ''Unknown'')"
proof (intro conjI impI)
  assume a: "parse_time_slots soup day = Inr rs \<and> r \<in> set rs"
  then consider a where "strategy_grid soup day = Inr a" "r \<in> set a"
    | item where "extract_from_json_item item day = Inr (Some r)"
    | element where "extract_from_element element day = Inr (Some r)"
    using parse_time_slots_records [of soup day rs r] by blast
  then have "(0 < duration_hours r \<or> start_time r = end_time r)
      \<and> (source r = ''grid_table'' \<longrightarrow> duration_hours r = 1 / 2)"
  proof cases
    case 1
    from grid_records [OF 1] show ?thesis by simp
  next
    case 2
    from json_span [OF 2] json_source [OF 2] show ?thesis by simp
  next
    case 3
    from element_span [OF 3] element_source [OF 3] show ?thesis by simp
  qed
  then show "0 < duration_hours r \<or> start_time r = end_time r"
    and "source r = ''grid_table'' \<Longrightarrow> duration_hours r = 1 / 2" by simp_all
next
  assume "extract_from_json_item item day = Inr (Some r1) \<and> first_key room_keys item = None"
  with json_source [of item day r1] show "room_name r1 = ''Unknown''" by simp
next
  assume "extract_from_element element day = Inr (Some r2)
        \<and> room_search None (get_text_strip '' '' element) = None
        \<and> map_of (attrs_of element) ''data-room'' = None"
  with element_source [of element day r2] show "room_name r2 = ''Unknown''" by simp
qed

theorem record_invariants_witness:
  "(parse_time_slots page_redundant day1 = Inr [grid_record_104 day1, element_record_104 day1]
      \<and> grid_record_104 day1 \<in> set [grid_record_104 day1, element_record_104 day1]
      \<and> duration_hours (grid_record_104 day1) = 1 / 2)
   \<and> (extract_from_json_item item_no_room day1 = Inr (Some item_no_room_record)
      \<and> first_key room_keys item_no_room = None
      \<and> room_name item_no_room_record = ''Unknown'')
   \<and> (extract_from_element element_no_room day1 = Inr (Some element_no_room_record)
      \<and> room_search None (get_text_strip '' '' element_no_room) = None
      \<and> map_of (attrs_of element_no_room) ''data-room'' = None
      \<and> room_name element_no_room_record = ''Unknown'')"
proof -
  have g: "source (grid_record_104 day1) = ''grid_table''" by (simp add: grid_record_104_def)
  from record_invariants [of page_redundant day1 "[grid_record_104 day1, element_record_104 day1]"
      "grid_record_104 day1" item_no_room item_no_room_record element_no_room
      element_no_room_record]
    parse_redundant [OF day1_ordinal] item_no_room_eval element_no_room_eval g
  show ?thesis by simp
qed

text \<open>
  Claim C7 as stated fails: the object \<open>{"startTime": "10:00", "endTime": "10:00",
  "roomName": ""}\<close> yields a record whose room name is empty and whose duration is 0.
\<close>

theorem zero_span_empty_room:
  "map (\<lambda>r. (room_name r, duration_hours r)) (projr (parse_time_slots page_zero_span day1))
   = [([], 0)]"
  by (simp add: page_zero_span_records)


subsection \<open>The room id\<close>





subsection \<open>A day without page\<close>







end
